theory Spec2Isabelle
  imports Complex_Main "HOL-Library.AList"
begin

section \<open>Common values\<close>

text \<open>
  Python exceptions that the modelled code can raise. A function that can raise returns
  a sum whose left side is the exception.
\<close>

datatype py_error =
  AttributeError | KeyError | TypeError | ValueError | UnboundLocalError | IndexError
  | SyntaxError | AtorchNotFoundException | AtorchInvalidException | OtherError

text \<open>\<open>int(x)\<close> of Python on a float: truncation toward zero.\<close>

definition py_int :: "real \<Rightarrow> int" where
  "py_int x = (if 0 \<le> x then \<lfloor>x\<rfloor> else \<lceil>x\<rceil>)"

text \<open>The node types of \<open>dlrover.python.common.constants.NodeType\<close> that the code names.\<close>

datatype NodeType = WORKER | PS | EVALUATOR | CHIEF

section \<open>master/resource/job.py: the job resource optimizer\<close>

datatype JobOptStage = CREATE | WORKER_INITIAL | PS_INITIAL | RUNNING

datatype OptimizeWorkerPhase = INITIAL | SAMPLE | STABLE

record NodeResource =
  cpu :: real
  memory :: int

record NodeGroupResource =
  count :: int
  node_resource :: NodeResource

record ResourcePlan =
  node_group_resources :: "(NodeType \<times> NodeGroupResource) list"
  node_resources :: "(string \<times> NodeResource) list"

text \<open>
  Modelled from the spec: the class \<open>ResourcePlan\<close> is not among the source files. Its
  two dictionaries are association lists in insertion order (\<open>map_of\<close> looks a key up,
  \<open>AList.update\<close> assigns to one), and the spec's data model says that \<open>empty()\<close> holds
  exactly when both are empty.
\<close>

definition plan_empty :: "ResourcePlan \<Rightarrow> bool" where
  "plan_empty plan \<longleftrightarrow>
     node_group_resources plan = [] \<and> node_resources plan = []"

text \<open>
  The constants of \<open>NodeResourceLimit\<close> that job.py reads. Their class is not among the
  source files, so they are parameters of every function that uses them.
\<close>

record NodeResourceLimit =
  MIN_VALID_MEMORY :: int
  MIN_VALID_CPU :: real
  MAX_PS_NUM :: int
  MAX_MEMORY :: int
  INCREMENTAL_MEMORY_FACTOR :: real

text \<open>The settings of the global context that job.py and servicer.py read.\<close>

record Context =
  easydl_worker_enabled :: bool
  easydl_ps_enabled :: bool
  seconds_to_autoscale_worker :: int
  sample_count_to_adjust_worker :: int

text \<open>
  The resource optimizer (\<open>LocalOptimizer\<close> or \<open>BrainResoureOptimizer\<close>) is a
  collaborator whose code is not among the source files. Its two methods are parameters.
  The \<open>optimizer_config\<close> dictionary holds at most the worker optimize phase, so it is an
  optional phase; the result \<open>None\<close> is Python's \<open>None\<close>. A \<open>ResourcePlan\<close> object is
  truthy (\<open>not plan\<close> holds for \<open>None\<close> only).
\<close>

record ResourceOptimizer =
  generate_opt_plan :: "JobOptStage \<Rightarrow> OptimizeWorkerPhase option \<Rightarrow> ResourcePlan option"
  generate_oom_recovery_plan :: "string list \<Rightarrow> JobOptStage \<Rightarrow> ResourcePlan option"

record JobResourceOptimizer =
  worker_resource :: NodeGroupResource
  ps_resource :: NodeGroupResource
  original_worker_resource :: NodeGroupResource
  original_ps_resource :: NodeGroupResource
  optimized_ps_mem :: bool
  optimize_worker_sampled :: bool
  job_stage :: JobOptStage

text \<open>
  \<open>JobResourceOptimizer.__init__\<close>: the originals are deep copies of the resources given.
\<close>

definition new_JobResourceOptimizer ::
  "NodeGroupResource \<Rightarrow> NodeGroupResource \<Rightarrow> JobResourceOptimizer" where
  "new_JobResourceOptimizer w p =
     \<lparr>worker_resource = w, ps_resource = p,
      original_worker_resource = w, original_ps_resource = p,
      optimized_ps_mem = False, optimize_worker_sampled = False,
      job_stage = CREATE\<rparr>"

definition check_ignore_original_worker_resource ::
  "NodeResourceLimit \<Rightarrow> JobResourceOptimizer \<Rightarrow> int \<Rightarrow> real \<Rightarrow> int \<Rightarrow> int \<times> real \<times> int" where
  "check_ignore_original_worker_resource lmt self num cpu0 mem =
     (let orig = original_worker_resource self;
          num1 = (if count orig > 0 then count orig else num);
          mem1 = (if memory (node_resource orig) \<ge> MIN_VALID_MEMORY lmt
                  then memory (node_resource orig) else mem);
          cpu1 = (if cpu (node_resource orig) \<ge> MIN_VALID_CPU lmt
                  then cpu (node_resource orig) else cpu0)
      in (num1, cpu1, mem1))"

definition check_ignore_original_ps_resource ::
  "NodeResourceLimit \<Rightarrow> JobResourceOptimizer \<Rightarrow> int \<Rightarrow> real \<Rightarrow> int \<Rightarrow> int \<times> real \<times> int" where
  "check_ignore_original_ps_resource lmt self num cpu0 mem =
     (let orig = original_ps_resource self;
          num1 = (if count orig > 0 then count orig else num);
          mem1 = (if memory (node_resource orig) \<ge> MIN_VALID_MEMORY lmt
                  then memory (node_resource orig) else mem);
          cpu1 = (if cpu (node_resource orig) \<ge> MIN_VALID_CPU lmt
                  then cpu (node_resource orig) else cpu0)
      in (num1, cpu1, mem1))"

text \<open>
  \<open>_verify_optimized_group_resource\<close>. The group is an object of the plan and is changed
  in place, so the plan is returned with it. A plan without the group raises \<open>KeyError\<close>;
  a node type other than worker and PS leaves \<open>num\<close> unbound at \<open>group.count = num\<close>.
  \<open>set_group\<close> is the three assignments \<open>g.count = num; g.node_resource.cpu = cpu;
  g.node_resource.memory = mem\<close> on one group object.
\<close>

definition set_group ::
  "NodeGroupResource \<Rightarrow> int \<Rightarrow> real \<Rightarrow> int \<Rightarrow> NodeGroupResource" where
  "set_group g num cpu1 mem =
     g\<lparr>count := num, node_resource := (node_resource g)\<lparr>cpu := cpu1, memory := mem\<rparr>\<rparr>"

definition verify_optimized_group_resource ::
  "NodeResourceLimit \<Rightarrow> JobResourceOptimizer \<Rightarrow> ResourcePlan \<Rightarrow> NodeType
     \<Rightarrow> py_error + (JobResourceOptimizer \<times> ResourcePlan)" where
  "verify_optimized_group_resource lmt self plan node_type =
     (case map_of (node_group_resources plan) node_type of
        None \<Rightarrow> Inl KeyError
      | Some grp \<Rightarrow>
          (case node_type of
             WORKER \<Rightarrow>
               (let (num, cpu1, mem) =
                      check_ignore_original_worker_resource lmt self (count grp)
                        (cpu (node_resource grp)) (memory (node_resource grp))
                in Inr (self\<lparr>worker_resource :=
                               set_group (worker_resource self) num cpu1 mem\<rparr>,
                        plan\<lparr>node_group_resources :=
                               AList.update node_type (set_group grp num cpu1 mem)
                                 (node_group_resources plan)\<rparr>))
           | PS \<Rightarrow>
               (let (num, cpu1, mem) =
                      check_ignore_original_ps_resource lmt self (count grp)
                        (cpu (node_resource grp)) (memory (node_resource grp))
                in Inr (self\<lparr>ps_resource :=
                               set_group (ps_resource self) (min num (MAX_PS_NUM lmt)) cpu1 mem\<rparr>,
                        plan\<lparr>node_group_resources :=
                               AList.update node_type (set_group grp num cpu1 mem)
                                 (node_group_resources plan)\<rparr>))
           | _ \<Rightarrow> Inl UnboundLocalError))"

text \<open>
  The three worker requests and the PS request. \<open>_get_worker_resource_at_init_phase\<close> calls
  \<open>plan.empty()\<close> on what the optimizer returned (an \<open>AttributeError\<close> on \<open>None\<close>) and
  returns \<open>None\<close> for an empty plan; the sample and stable requests return what the optimizer
  returned.
\<close>

definition get_worker_resource_at_init_phase ::
  "ResourceOptimizer \<Rightarrow> py_error + ResourcePlan option" where
  "get_worker_resource_at_init_phase opt =
     (case generate_opt_plan opt WORKER_INITIAL (Some INITIAL) of
        None \<Rightarrow> Inl AttributeError
      | Some plan \<Rightarrow> if plan_empty plan then Inr None else Inr (Some plan))"

definition get_worker_resource_at_sample_phase ::
  "ResourceOptimizer \<Rightarrow> ResourcePlan option" where
  "get_worker_resource_at_sample_phase opt =
     (case generate_opt_plan opt WORKER_INITIAL (Some SAMPLE) of
        None \<Rightarrow> None
      | Some plan \<Rightarrow> Some plan)"

definition get_worker_resource_at_stable_phase ::
  "ResourceOptimizer \<Rightarrow> ResourcePlan option" where
  "get_worker_resource_at_stable_phase opt =
     (case generate_opt_plan opt WORKER_INITIAL (Some STABLE) of
        None \<Rightarrow> None
      | Some plan \<Rightarrow> Some plan)"

definition get_worker_resource_at_running ::
  "ResourceOptimizer \<Rightarrow> JobResourceOptimizer \<Rightarrow> ResourcePlan option \<times> JobResourceOptimizer" where
  "get_worker_resource_at_running opt self =
     (if \<not> optimize_worker_sampled self
      then (get_worker_resource_at_sample_phase opt, self\<lparr>optimize_worker_sampled := True\<rparr>)
      else (get_worker_resource_at_stable_phase opt, self))"

definition get_ps_resource_plan ::
  "ResourceOptimizer \<Rightarrow> JobResourceOptimizer \<Rightarrow> ResourcePlan option" where
  "get_ps_resource_plan opt self = generate_opt_plan opt (job_stage self) None"

text \<open>
  The \<open>if\<close>/\<open>elif\<close> chain of \<open>get_job_resource_plan\<close> on the stage: the plan requested for
  the stage (\<open>Inr None\<close> is the value \<open>None\<close>) or the exception raised, and the optimizer
  object with the new stage. \<open>plan.empty()\<close> on \<open>None\<close> raises \<open>AttributeError\<close>.
\<close>

definition stage_plan ::
  "ResourceOptimizer \<Rightarrow> JobResourceOptimizer
     \<Rightarrow> (py_error + ResourcePlan option) \<times> JobResourceOptimizer" where
  "stage_plan opt self =
     (case job_stage self of
        WORKER_INITIAL \<Rightarrow>
          (case get_worker_resource_at_init_phase opt of
             Inl e \<Rightarrow> (Inl e, self)
           | Inr p \<Rightarrow> (Inr p, self\<lparr>job_stage := PS_INITIAL\<rparr>))
      | PS_INITIAL \<Rightarrow> (Inr (get_ps_resource_plan opt self), self\<lparr>job_stage := RUNNING\<rparr>)
      | RUNNING \<Rightarrow>
          (case get_ps_resource_plan opt self of
             None \<Rightarrow> (Inl AttributeError, self)
           | Some plan \<Rightarrow>
               if plan_empty plan
               then (case get_worker_resource_at_running opt self of
                       (p, self') \<Rightarrow> (Inr p, self'))
               else (Inr (Some plan), self))
      | CREATE \<Rightarrow> (Inr None, self))"

text \<open>
  \<open>get_job_resource_plan\<close>. The first component of the result is what the call returns
  (\<open>Inr None\<close> is the return value \<open>None\<close>) or the exception it raises; the second is the
  optimizer object after the call, which keeps the assignments made before an exception.
  \<open>plan.empty()\<close> on \<open>None\<close> raises \<open>AttributeError\<close>. \<open>adjust\<close> is
  \<open>ResourcePlan.adjust_plan_by_context\<close>, whose code is not among the source files.
\<close>

definition get_job_resource_plan ::
  "NodeResourceLimit \<Rightarrow> ResourceOptimizer \<Rightarrow> (ResourcePlan \<Rightarrow> ResourcePlan)
     \<Rightarrow> JobResourceOptimizer
     \<Rightarrow> (py_error + ResourcePlan option) \<times> JobResourceOptimizer" where
  "get_job_resource_plan lmt opt adjust self =
     (let (r, self1) = stage_plan opt self
      in case r of
           Inl e \<Rightarrow> (Inl e, self1)
         | Inr None \<Rightarrow> (Inl AttributeError, self1)
         | Inr (Some plan) \<Rightarrow>
             if plan_empty plan then (Inr None, self1)
             else
               (case (if map_of (node_group_resources plan) WORKER \<noteq> None
                      then verify_optimized_group_resource lmt self1 plan WORKER
                      else Inr (self1, plan)) of
                  Inl e \<Rightarrow> (Inl e, self1)
                | Inr (self2, plan2) \<Rightarrow>
                    (case (if map_of (node_group_resources plan2) PS \<noteq> None
                           then verify_optimized_group_resource lmt self2 plan2 PS
                           else Inr (self2, plan2)) of
                       Inl e \<Rightarrow> (Inl e, self2)
                     | Inr (self3, plan3) \<Rightarrow> (Inr (Some (adjust plan3)), self3))))"

text \<open>
  \<open>optimize_worker_resource\<close>. \<open>update\<close> is \<open>NodeGroupResource.update\<close>, whose code is not
  among the source files.
\<close>

definition optimize_worker_resource ::
  "ResourceOptimizer \<Rightarrow> (NodeGroupResource \<Rightarrow> int \<Rightarrow> real \<Rightarrow> int \<Rightarrow> NodeGroupResource)
     \<Rightarrow> JobResourceOptimizer \<Rightarrow> py_error + JobResourceOptimizer" where
  "optimize_worker_resource opt update self =
     (case get_worker_resource_at_init_phase opt of
        Inl e \<Rightarrow> Inl e
      | Inr None \<Rightarrow> Inr self
      | Inr (Some plan) \<Rightarrow>
          (case map_of (node_group_resources plan) WORKER of
             None \<Rightarrow> Inr self
           | Some w \<Rightarrow>
               Inr (self\<lparr>worker_resource :=
                      update (worker_resource self) (count w)
                        (cpu (node_resource w)) (memory (node_resource w))\<rparr>)))"

text \<open>The fields of a \<open>Node\<close> that \<open>adjust_oom_worker_resource\<close> reads and writes.\<close>

record Node =
  name :: string
  config_resource :: NodeResource

definition set_memory :: "NodeGroupResource \<Rightarrow> int \<Rightarrow> NodeGroupResource" where
  "set_memory g mem = g\<lparr>node_resource := (node_resource g)\<lparr>memory := mem\<rparr>\<rparr>"

text \<open>
  \<open>adjust_oom_worker_resource\<close>. Both exceptions (the \<open>KeyError\<close> of a plan without a
  worker group, and what \<open>optimize_worker_resource\<close> raises) come before any assignment.
  The three arguments of \<open>max\<close> are an integer, the product with the factor and an
  integer; \<open>int\<close> truncates the greatest of them.
\<close>

definition adjust_oom_worker_resource ::
  "Context \<Rightarrow> NodeResourceLimit \<Rightarrow> ResourceOptimizer
     \<Rightarrow> (NodeGroupResource \<Rightarrow> int \<Rightarrow> real \<Rightarrow> int \<Rightarrow> NodeGroupResource)
     \<Rightarrow> JobResourceOptimizer \<Rightarrow> Node \<Rightarrow> py_error + (JobResourceOptimizer \<times> Node)" where
  "adjust_oom_worker_resource ctx lmt opt update self node =
     (let cur_mem = memory (config_resource node);
          r =
            (if easydl_worker_enabled ctx \<and> job_stage self = WORKER_INITIAL
             then
               (case generate_oom_recovery_plan opt [name node] CREATE of
                  None \<Rightarrow> Inr self
                | Some plan \<Rightarrow>
                    if plan_empty plan then Inr self
                    else
                      (case map_of (node_group_resources plan) WORKER of
                         None \<Rightarrow> Inl KeyError
                       | Some new_resource \<Rightarrow>
                           Inr (self\<lparr>worker_resource :=
                                  set_memory (worker_resource self)
                                    (max (memory (node_resource (worker_resource self)))
                                         (memory (node_resource new_resource)))\<rparr>)))
             else optimize_worker_resource opt update self)
      in case r of
           Inl e \<Rightarrow> Inl e
         | Inr self1 \<Rightarrow>
             (let cur_mem1 = real_of_int cur_mem * INCREMENTAL_MEMORY_FACTOR lmt
              in Inr (self1,
                      node\<lparr>config_resource := (config_resource node)\<lparr>memory :=
                        py_int
                          (max (real_of_int (memory (node_resource (worker_resource self1))))
                             (max cur_mem1
                                (real_of_int
                                   (memory (node_resource (original_worker_resource self1))))))
                        \<rparr>\<rparr>)))"

text \<open>
  The plan that \<open>_init_job_resource_by_optimizer\<close> starts from: what the optimizer proposes
  for the current stage or, without a proposal, \<open>ResourcePlan.new_default_plan()\<close>, whose
  code is not among the source files and which is the parameter \<open>default_plan\<close>.
\<close>

definition initial_plan ::
  "ResourceOptimizer \<Rightarrow> ResourcePlan \<Rightarrow> JobResourceOptimizer \<Rightarrow> ResourcePlan" where
  "initial_plan opt default_plan self =
     (case generate_opt_plan opt (job_stage self) None of
        None \<Rightarrow> default_plan
      | Some plan \<Rightarrow> if plan_empty plan then default_plan else plan)"

text \<open>
  \<open>_init_job_resource_by_optimizer\<close>, the part of \<open>init_job_resource\<close> that writes the live
  resources: the proposed worker and PS groups go through the filter and then through
  \<open>NodeGroupResource.update\<close>.
\<close>

definition init_job_resource_by_optimizer ::
  "Context \<Rightarrow> NodeResourceLimit \<Rightarrow> ResourceOptimizer
     \<Rightarrow> (NodeGroupResource \<Rightarrow> int \<Rightarrow> real \<Rightarrow> int \<Rightarrow> NodeGroupResource) \<Rightarrow> ResourcePlan
     \<Rightarrow> JobResourceOptimizer \<Rightarrow> JobResourceOptimizer" where
  "init_job_resource_by_optimizer ctx lmt opt update default_plan self =
     (let plan = initial_plan opt default_plan self;
          self1 = self\<lparr>job_stage := WORKER_INITIAL\<rparr>;
          self2 =
            (case (if easydl_worker_enabled ctx
                   then map_of (node_group_resources plan) WORKER else None) of
               None \<Rightarrow> self1
             | Some w \<Rightarrow>
                 (let (num, cpu1, mem) =
                        check_ignore_original_worker_resource lmt self1 (count w)
                          (cpu (node_resource w)) (memory (node_resource w))
                  in self1\<lparr>worker_resource := update (worker_resource self1) num cpu1 mem\<rparr>))
      in case (if easydl_ps_enabled ctx
               then map_of (node_group_resources plan) PS else None) of
           None \<Rightarrow> self2
         | Some p \<Rightarrow>
             (let (num, cpu1, mem) =
                    check_ignore_original_ps_resource lmt self2 (count p)
                      (cpu (node_resource p)) (memory (node_resource p))
              in self2\<lparr>ps_resource := update (ps_resource self2) num cpu1 mem\<rparr>))"

text \<open>
  \<open>adjust_oom_ps_resource\<close>: either the recovery plan is verified and returned (the
  re-plan, which leaves the node as it is), or the live PS memory is raised and the node's
  memory incremented, and an empty plan is returned. A plan without a PS group raises
  \<open>KeyError\<close> before any assignment.
\<close>

definition increment_ps_node_memory ::
  "NodeResourceLimit \<Rightarrow> JobResourceOptimizer \<Rightarrow> Node \<Rightarrow> Node" where
  "increment_ps_node_memory lmt self node =
     node\<lparr>config_resource := (config_resource node)\<lparr>memory :=
       py_int
         (max (real_of_int (memory (node_resource (ps_resource self))))
            (max (real_of_int (memory (config_resource node)) * INCREMENTAL_MEMORY_FACTOR lmt)
               (real_of_int (memory (node_resource (original_ps_resource self))))))\<rparr>\<rparr>"

definition adjust_oom_ps_resource ::
  "NodeResourceLimit \<Rightarrow> ResourceOptimizer \<Rightarrow> (ResourcePlan \<Rightarrow> ResourcePlan)
     \<Rightarrow> JobResourceOptimizer \<Rightarrow> Node \<Rightarrow> bool
     \<Rightarrow> py_error + (ResourcePlan \<times> JobResourceOptimizer \<times> Node)" where
  "adjust_oom_ps_resource lmt opt adjust self node training_started =
     (let no_replan =
            (\<lambda>self1. Inr (\<lparr>node_group_resources = [], node_resources = []\<rparr>, self1,
                          increment_ps_node_memory lmt self1 node))
      in case generate_oom_recovery_plan opt [name node] PS_INITIAL of
           None \<Rightarrow> no_replan self
         | Some plan \<Rightarrow>
             if plan_empty plan then no_replan self
             else
               (case map_of (node_group_resources plan) PS of
                  None \<Rightarrow> Inl KeyError
                | Some ps \<Rightarrow>
                    if \<not> training_started \<and> count ps > 0
                         \<and> memory (node_resource ps) < MAX_MEMORY lmt
                    then (case verify_optimized_group_resource lmt self plan PS of
                            Inl e \<Rightarrow> Inl e
                          | Inr (self1, plan1) \<Rightarrow> Inr (adjust plan1, self1, node))
                    else no_replan
                           (self\<lparr>ps_resource :=
                              set_memory (ps_resource self)
                                (max (memory (node_resource (ps_resource self)))
                                     (memory (node_resource ps)))\<rparr>)))"

text \<open>
  The calls on a \<open>JobResourceOptimizer\<close> that write its live resources, each with the
  optimizer as it answers during the call, and the optimizer object after a call and
  after a sequence of calls. What stays the same over a sequence is in \<open>JobEnv\<close>: the
  context, the limits, and the three pieces of code that are not among the source files.
  A call that raises leaves the object as it was when the exception was raised.
\<close>

record JobEnv =
  env_context :: Context
  env_limit :: NodeResourceLimit
  env_update :: "NodeGroupResource \<Rightarrow> int \<Rightarrow> real \<Rightarrow> int \<Rightarrow> NodeGroupResource"
  env_adjust :: "ResourcePlan \<Rightarrow> ResourcePlan"
  env_default_plan :: ResourcePlan

datatype JobCall =
  InitJobResource ResourceOptimizer
| GetJobResourcePlan ResourceOptimizer
| OptimizeWorkerResource ResourceOptimizer
| AdjustOomWorkerResource ResourceOptimizer Node
| AdjustOomPsResource ResourceOptimizer Node bool

fun job_call :: "JobEnv \<Rightarrow> JobResourceOptimizer \<Rightarrow> JobCall \<Rightarrow> JobResourceOptimizer" where
  "job_call env self (InitJobResource opt) =
     init_job_resource_by_optimizer (env_context env) (env_limit env) opt (env_update env)
       (env_default_plan env) self"
| "job_call env self (GetJobResourcePlan opt) =
     snd (get_job_resource_plan (env_limit env) opt (env_adjust env) self)"
| "job_call env self (OptimizeWorkerResource opt) =
     (case optimize_worker_resource opt (env_update env) self of
        Inl e \<Rightarrow> self
      | Inr self' \<Rightarrow> self')"
| "job_call env self (AdjustOomWorkerResource opt node) =
     (case adjust_oom_worker_resource (env_context env) (env_limit env) opt (env_update env)
             self node of
        Inl e \<Rightarrow> self
      | Inr (self', node') \<Rightarrow> self')"
| "job_call env self (AdjustOomPsResource opt node training_started) =
     (case adjust_oom_ps_resource (env_limit env) opt (env_adjust env) self node
             training_started of
        Inl e \<Rightarrow> self
      | Inr (plan, self', node') \<Rightarrow> self')"

definition job_calls :: "JobEnv \<Rightarrow> JobResourceOptimizer \<Rightarrow> JobCall list \<Rightarrow> JobResourceOptimizer" where
  "job_calls env self calls = foldl (job_call env) self calls"

text \<open>
  What the user-override filter prescribes for a live group resource, given the original
  one: the count, the memory and the cpu that the user set are kept. For the PS group
  after \<open>_verify_optimized_group_resource\<close> the count is also cut to \<open>MAX_PS_NUM\<close>.
\<close>

definition user_override ::
  "NodeResourceLimit \<Rightarrow> NodeGroupResource \<Rightarrow> NodeGroupResource \<Rightarrow> bool" where
  "user_override lmt orig live \<longleftrightarrow>
     (0 < count orig \<longrightarrow> count live = count orig) \<and>
     (MIN_VALID_MEMORY lmt \<le> memory (node_resource orig) \<longrightarrow>
        memory (node_resource live) = memory (node_resource orig)) \<and>
     (MIN_VALID_CPU lmt \<le> cpu (node_resource orig) \<longrightarrow>
        cpu (node_resource live) = cpu (node_resource orig))"

definition ps_override ::
  "NodeResourceLimit \<Rightarrow> NodeGroupResource \<Rightarrow> NodeGroupResource \<Rightarrow> bool" where
  "ps_override lmt orig live \<longleftrightarrow>
     count live \<le> MAX_PS_NUM lmt \<and>
     (0 < count orig \<longrightarrow> count live = min (count orig) (MAX_PS_NUM lmt)) \<and>
     (MIN_VALID_MEMORY lmt \<le> memory (node_resource orig) \<longrightarrow>
        memory (node_resource live) = memory (node_resource orig)) \<and>
     (MIN_VALID_CPU lmt \<le> cpu (node_resource orig) \<longrightarrow>
        cpu (node_resource live) = cpu (node_resource orig))"

text \<open>
  What is assumed of \<open>NodeGroupResource.update\<close> where a statement needs it: a count, a
  cpu or a memory that is positive is assigned.
\<close>

definition assigns_positive ::
  "(NodeGroupResource \<Rightarrow> int \<Rightarrow> real \<Rightarrow> int \<Rightarrow> NodeGroupResource) \<Rightarrow> bool" where
  "assigns_positive update \<longleftrightarrow>
     (\<forall>g n c m.
        (0 < n \<longrightarrow> count (update g n c m) = n) \<and>
        (0 < c \<longrightarrow> cpu (node_resource (update g n c m)) = c) \<and>
        (0 < m \<longrightarrow> memory (node_resource (update g n c m)) = m))"

section \<open>master/shard/task_manager.py: the task manager\<close>

datatype TaskType = NONE | TRAINING | EVALUATION | PREDICTION | WAIT

record Shard =
  shard_name :: string
  shard_start :: int
  shard_end :: int
  record_indices :: "int list"

record Task =
  task_id :: int
  task_type :: TaskType
  shard :: Shard

record DoingTask =
  task :: Task
  node_type :: NodeType
  node_id :: int
  start_time :: real

text \<open>
  The dataset manager (\<open>BatchDatasetManager\<close>), the checkpoint class
  (\<open>DatasetShardCheckpoint\<close>) and the class \<open>Task\<close> are not among the source files. What the
  task manager calls on them is a parameter: \<open>'d\<close> is the state of one dataset manager,
  \<open>'sp\<close> a dataset splitter and \<open>'ck\<close> a parsed checkpoint. A method that changes the
  dataset returns the new state; \<open>ds_doing\<close> is the \<open>doing\<close> dictionary in insertion order;
  \<open>ds_restore_checkpoint\<close> also says whether it raised. \<open>ds_get_task\<close> always returns a
  \<open>Task\<close> object, as \<open>get_dataset_task\<close> reads \<open>task.task_type\<close> of what it returns; which
  object it returns when there is nothing to hand out is up to the dataset manager.
\<close>

record ('d, 'sp, 'ck) DatasetOps =
  new_BatchDatasetManager :: "TaskType \<Rightarrow> int \<Rightarrow> 'sp \<Rightarrow> 'd"
  ds_get_task :: "'d \<Rightarrow> NodeType \<Rightarrow> int \<Rightarrow> Task \<times> 'd"
  ds_completed :: "'d \<Rightarrow> bool"
  ds_report_task_status :: "'d \<Rightarrow> int \<Rightarrow> bool \<Rightarrow> (bool \<times> DoingTask option) \<times> 'd"
  ds_get_latest_task_end_time :: "'d \<Rightarrow> real"
  ds_doing :: "'d \<Rightarrow> (int \<times> DoingTask) list"
  ds_restore_checkpoint :: "'d \<Rightarrow> 'ck \<Rightarrow> py_error option \<times> 'd"
  ckpt_from_json :: "string \<Rightarrow> py_error + 'ck"
  ckpt_dataset_name :: "'ck \<Rightarrow> string"

text \<open>
  The task manager. \<open>datasets\<close> is the ordered dictionary \<open>_datasets\<close> and
  \<open>worker_start_task_time\<close> the dictionary of that name, both as association lists. A
  time-out callback is an external callable, named here by a number. Every reading of
  \<open>time.time()\<close> is an argument of the function that reads it. The calls on the
  performance monitor change nothing of the task manager and are left out.
\<close>

record 'd TaskManager =
  task_process_timeout :: int
  datasets :: "(string \<times> 'd) list"
  worker_start_task_time :: "(int \<times> real) list"
  task_timeout_callbacks :: "nat list"
  paral_eval_count :: int
  paral_eval_started :: bool

definition new_TaskManager :: "int \<Rightarrow> 'd TaskManager" where
  "new_TaskManager timeout =
     \<lparr>task_process_timeout = timeout, datasets = [], worker_start_task_time = [],
      task_timeout_callbacks = [], paral_eval_count = 0, paral_eval_started = False\<rparr>"

definition new_dataset ::
  "('d, 'sp, 'ck) DatasetOps \<Rightarrow> 'd TaskManager \<Rightarrow> int \<Rightarrow> int \<Rightarrow> string \<Rightarrow> 'sp \<Rightarrow> TaskType
     \<Rightarrow> 'd TaskManager" where
  "new_dataset ops self batch_size dataset_size dataset_name dataset_splitter ttype =
     (if map_of (datasets self) dataset_name \<noteq> None then self
      else if dataset_size < 0 then self
      else self\<lparr>datasets :=
             AList.update dataset_name
               (new_BatchDatasetManager ops ttype batch_size dataset_splitter)
               (datasets self)\<rparr>)"

definition get_dataset :: "'d TaskManager \<Rightarrow> string \<Rightarrow> 'd option" where
  "get_dataset self dataset_name = map_of (datasets self) dataset_name"

text \<open>
  \<open>get_dataset_task\<close>: \<open>None\<close> for an unknown dataset, otherwise what the dataset manager
  hands out. The dataset object is changed in place, which is the update of its entry.
\<close>

definition get_dataset_task ::
  "('d, 'sp, 'ck) DatasetOps \<Rightarrow> 'd TaskManager \<Rightarrow> NodeType \<Rightarrow> int \<Rightarrow> string \<Rightarrow> real
     \<Rightarrow> Task option \<times> 'd TaskManager" where
  "get_dataset_task ops self ntype nid dataset_name now =
     (case map_of (datasets self) dataset_name of
        None \<Rightarrow> (None, self)
      | Some dataset \<Rightarrow>
          (let (t, dataset') = ds_get_task ops dataset ntype nid;
               self1 = self\<lparr>datasets := AList.update dataset_name dataset' (datasets self)\<rparr>;
               self2 =
                 (if task_type t = EVALUATION \<and> ntype = WORKER \<and> \<not> paral_eval_started self1
                  then self1\<lparr>paral_eval_count := paral_eval_count self1 + 1,
                             paral_eval_started := True\<rparr>
                  else self1);
               self3 =
                 (if task_type t = TRAINING then self2\<lparr>paral_eval_started := False\<rparr>
                  else self2)
           in (Some t,
               self3\<lparr>worker_start_task_time :=
                 AList.update nid now (worker_start_task_time self3)\<rparr>)))"

text \<open>The request of \<open>report_dataset_task\<close> (\<open>comm.TaskResult\<close>).\<close>

record TaskResult =
  result_task_id :: int
  result_dataset_name :: string
  err_message :: string

text \<open>
  \<open>report_dataset_task\<close>: \<open>ValueError\<close> for an unknown dataset; \<open>doing_task.node_id\<close> on
  \<open>None\<close> raises \<open>AttributeError\<close>. The task manager after the call is returned in both
  cases.
\<close>

definition report_dataset_task ::
  "('d, 'sp, 'ck) DatasetOps \<Rightarrow> 'd TaskManager \<Rightarrow> TaskResult \<Rightarrow> bool \<Rightarrow> real
     \<Rightarrow> (py_error + (Task option \<times> int option)) \<times> 'd TaskManager" where
  "report_dataset_task ops self request success now =
     (case map_of (datasets self) (result_dataset_name request) of
        None \<Rightarrow> (Inl ValueError, self)
      | Some dataset \<Rightarrow>
          (let ((success1, doing_task), dataset') =
                 ds_report_task_status ops dataset (result_task_id request) success;
               self1 = self\<lparr>datasets :=
                 AList.update (result_dataset_name request) dataset' (datasets self)\<rparr>
           in if success1
              then (case doing_task of
                      None \<Rightarrow> (Inl AttributeError, self1)
                    | Some dt \<Rightarrow>
                        (Inr (Some (task dt), Some (node_id dt)),
                         self1\<lparr>worker_start_task_time :=
                           AList.update (node_id dt) now (worker_start_task_time self1)\<rparr>))
              else (Inr (None, None), self1)))"

definition task_hanged :: "('d, 'sp, 'ck) DatasetOps \<Rightarrow> 'd TaskManager \<Rightarrow> real \<Rightarrow> bool" where
  "task_hanged ops self now =
     (let dataset_hang =
            map (\<lambda>(_, ds).
                   let end_time = ds_get_latest_task_end_time ops ds
                   in end_time > 0 \<and> now - end_time > real_of_int (task_process_timeout self))
              (datasets self)
      in if dataset_hang \<noteq> [] then list_all (\<lambda>hang. hang) dataset_hang else False)"

definition reset_worker_start_task_time ::
  "'d TaskManager \<Rightarrow> int \<Rightarrow> real \<Rightarrow> 'd TaskManager" where
  "reset_worker_start_task_time self worker_id now =
     self\<lparr>worker_start_task_time := AList.update worker_id now (worker_start_task_time self)\<rparr>"

definition set_task_timeout_callback :: "'d TaskManager \<Rightarrow> nat \<Rightarrow> 'd TaskManager" where
  "set_task_timeout_callback self callback_fn =
     self\<lparr>task_timeout_callbacks := task_timeout_callbacks self @ [callback_fn]\<rparr>"

text \<open>
  What one pass of the time-out sweeper does to the world outside the task manager's own
  fields: a task of a dataset reported as failed, and a callback called with a worker id.
\<close>

datatype SweepEvent = TaskReportedFailed string int | TimeoutCallback nat int

definition invoke_task_timeout_callback :: "'d TaskManager \<Rightarrow> int \<Rightarrow> SweepEvent list" where
  "invoke_task_timeout_callback self worker_id =
     map (\<lambda>callback_fn. TimeoutCallback callback_fn worker_id) (task_timeout_callbacks self)"

text \<open>
  The test of the inner loop of \<open>_check_and_reassign_timeout_tasks\<close> on one doing-task,
  with \<open>cur\<close> the time read before the loop; a worker without a recorded start time
  counts as started at \<open>cur\<close>.
\<close>

definition task_timed_out :: "'d TaskManager \<Rightarrow> real \<Rightarrow> DoingTask \<Rightarrow> bool" where
  "task_timed_out self cur doing_task =
     (let start =
            (case map_of (worker_start_task_time self) (node_id doing_task) of
               None \<Rightarrow> cur
             | Some t \<Rightarrow> t)
      in task_type (task doing_task) = EVALUATION
           \<and> cur - start > real_of_int (task_process_timeout self))"

text \<open>
  The inner loop over the copy of one dataset's \<open>doing\<close> dictionary: the first task that
  has timed out is reported as failed, the callbacks are called, and the loop ends.
\<close>

fun reassign_timeout_task ::
  "('d, 'sp, 'ck) DatasetOps \<Rightarrow> 'd TaskManager \<Rightarrow> real \<Rightarrow> string \<Rightarrow> 'd
     \<Rightarrow> (int \<times> DoingTask) list \<Rightarrow> 'd \<times> SweepEvent list" where
  "reassign_timeout_task ops self cur dataset_name dataset [] = (dataset, [])"
| "reassign_timeout_task ops self cur dataset_name dataset ((tid, doing_task) # rest) =
     (if task_timed_out self cur doing_task
      then (snd (ds_report_task_status ops dataset tid False),
            TaskReportedFailed dataset_name tid
              # invoke_task_timeout_callback self (node_id doing_task))
      else reassign_timeout_task ops self cur dataset_name dataset rest)"

text \<open>
  One pass of the outer \<open>for\<close> loop over the datasets (the body of \<open>while True\<close> before the
  sleep). \<open>clock\<close> gives the time read when the dataset of a name is visited. Each dataset
  object is changed in place; the dictionary itself is not.
\<close>

definition check_and_reassign_timeout_tasks ::
  "('d, 'sp, 'ck) DatasetOps \<Rightarrow> (string \<Rightarrow> real) \<Rightarrow> 'd TaskManager
     \<Rightarrow> 'd TaskManager \<times> SweepEvent list" where
  "check_and_reassign_timeout_tasks ops clock self =
     (let results =
            map (\<lambda>(dataset_name, dataset).
                   (dataset_name,
                    reassign_timeout_task ops self (clock dataset_name) dataset_name dataset
                      (ds_doing ops dataset)))
              (datasets self)
      in (self\<lparr>datasets := map (\<lambda>(dataset_name, r). (dataset_name, fst r)) results\<rparr>,
          concat (map (\<lambda>(dataset_name, r). snd r) results)))"

text \<open>The task ids that a list of sweep events reports as failed for one dataset.\<close>

fun reported_failed :: "string \<Rightarrow> SweepEvent list \<Rightarrow> int list" where
  "reported_failed n [] = []"
| "reported_failed n (TaskReportedFailed m tid # evs) =
     (if m = n then tid # reported_failed n evs else reported_failed n evs)"
| "reported_failed n (TimeoutCallback cb w # evs) = reported_failed n evs"

text \<open>
  \<open>restore_dataset_from_checkpoint\<close>: every exception inside \<open>try\<close> is caught and the call
  returns \<open>False\<close>. For an unknown dataset the error is logged and
  \<open>dataset.restore_checkpoint\<close> on \<open>None\<close> raises the \<open>AttributeError\<close> that is caught.
\<close>

definition restore_dataset_from_checkpoint ::
  "('d, 'sp, 'ck) DatasetOps \<Rightarrow> 'd TaskManager \<Rightarrow> string \<Rightarrow> bool \<times> 'd TaskManager" where
  "restore_dataset_from_checkpoint ops self checkpoint =
     (case ckpt_from_json ops checkpoint of
        Inl e \<Rightarrow> (False, self)
      | Inr dataset_checkpoint \<Rightarrow>
          (case map_of (datasets self) (ckpt_dataset_name ops dataset_checkpoint) of
             None \<Rightarrow> (False, self)
           | Some dataset \<Rightarrow>
               (case ds_restore_checkpoint ops dataset dataset_checkpoint of
                  (Some e, dataset') \<Rightarrow>
                    (False,
                     self\<lparr>datasets :=
                       AList.update (ckpt_dataset_name ops dataset_checkpoint) dataset'
                         (datasets self)\<rparr>)
                | (None, dataset') \<Rightarrow>
                    (True,
                     self\<lparr>datasets :=
                       AList.update (ckpt_dataset_name ops dataset_checkpoint) dataset'
                         (datasets self)\<rparr>))))"

section \<open>master/servicer.py: the master servicer\<close>

text \<open>
  The node manager is a collaborator whose code is not among the source files. Of its
  state the servicer reads the running workers; \<open>auto_scale_started\<close> counts the calls of
  \<open>start_auto_scale()\<close> it has received.
\<close>

record NodeManager =
  running_workers :: "int list"
  auto_scale_started :: nat

definition start_auto_scale :: "NodeManager \<Rightarrow> NodeManager" where
  "start_auto_scale nm = nm\<lparr>auto_scale_started := auto_scale_started nm + 1\<rparr>"

text \<open>
  What the speed monitor, another collaborator, answers during one call of the servicer:
  its \<open>completed_global_step\<close> and its \<open>get_sample_count()\<close>.
\<close>

record SpeedMonitor =
  completed_global_step :: int
  sample_count :: int

text \<open>
  The servicer. \<open>node_manager\<close> is \<open>None\<close> when none was given; \<open>rendezvous_server\<close> and
  \<open>job_metric_collector\<close> say whether one was given; \<open>start_training_time\<close> is \<open>None\<close>
  until \<open>get_task\<close> sets it.
\<close>

record 'd MasterServicer =
  task_manager :: "'d TaskManager"
  node_manager :: "NodeManager option"
  rendezvous_server :: bool
  job_metric_collector :: bool
  version :: int
  start_training_time :: "int option"
  start_autoscale :: bool

definition new_MasterServicer ::
  "'d TaskManager \<Rightarrow> NodeManager option \<Rightarrow> bool \<Rightarrow> bool \<Rightarrow> 'd MasterServicer" where
  "new_MasterServicer tm nm rdzv collector =
     \<lparr>task_manager = tm, node_manager = nm, rendezvous_server = rdzv,
      job_metric_collector = collector, version = 0, start_training_time = None,
      start_autoscale = False\<rparr>"

text \<open>
  \<open>_collect_runtime_stats\<close> changes nothing of the servicer; with a metric collector and
  no node manager, \<open>self._node_manager.get_running_nodes()\<close> raises.
\<close>

definition collect_runtime_stats :: "'d MasterServicer \<Rightarrow> py_error option" where
  "collect_runtime_stats self =
     (if job_metric_collector self
      then (case node_manager self of None \<Rightarrow> Some AttributeError | Some nm \<Rightarrow> None)
      else None)"

definition check_start_auto_scale_worker ::
  "Context \<Rightarrow> 'd MasterServicer \<Rightarrow> SpeedMonitor \<Rightarrow> py_error option \<times> 'd MasterServicer" where
  "check_start_auto_scale_worker ctx self sm =
     (if \<not> start_autoscale self \<and> sample_count sm \<ge> sample_count_to_adjust_worker ctx
      then (case node_manager self of
              None \<Rightarrow> (Some AttributeError, self)
            | Some nm \<Rightarrow>
                (None, self\<lparr>node_manager := Some (start_auto_scale nm),
                            start_autoscale := True\<rparr>))
      else (None, self))"

text \<open>
  The first \<open>if\<close> of \<open>report_task_result\<close>, the trigger for jobs that do not train. The
  conditions are evaluated from left to right, so the subtraction from a
  \<open>_start_training_time\<close> that is still \<open>None\<close> raises \<open>TypeError\<close> only when the three
  conditions before it hold.
\<close>

definition non_training_autoscale ::
  "Context \<Rightarrow> 'd MasterServicer \<Rightarrow> real \<Rightarrow> SpeedMonitor \<Rightarrow> py_error + 'd MasterServicer" where
  "non_training_autoscale ctx self now sm =
     (if \<not> start_autoscale self \<and> node_manager self \<noteq> None
           \<and> completed_global_step sm = 0
      then (case start_training_time self of
              None \<Rightarrow> Inl TypeError
            | Some t \<Rightarrow>
                if py_int now - t > seconds_to_autoscale_worker ctx
                then Inr (self\<lparr>node_manager := map_option start_auto_scale (node_manager self),
                               start_autoscale := True\<rparr>)
                else Inr self)
      else Inr self)"

text \<open>
  \<open>report_task_result\<close>. The result is the exception raised, if any, and the servicer
  after the call. \<open>task.task_type\<close> is read only with a metric collector, and raises when
  the task manager returned no task.
\<close>

definition report_task_result ::
  "('d, 'sp, 'ck) DatasetOps \<Rightarrow> Context \<Rightarrow> 'd MasterServicer \<Rightarrow> TaskResult \<Rightarrow> real
     \<Rightarrow> SpeedMonitor \<Rightarrow> py_error option \<times> 'd MasterServicer" where
  "report_task_result ops ctx self request now sm =
     (let success = (err_message request = [])
      in case report_dataset_task ops (task_manager self) request success now of
           (Inl e, tm) \<Rightarrow> (Some e, self\<lparr>task_manager := tm\<rparr>)
         | (Inr (t, nid), tm) \<Rightarrow>
             (case non_training_autoscale ctx (self\<lparr>task_manager := tm\<rparr>) now sm of
                Inl e \<Rightarrow> (Some e, self\<lparr>task_manager := tm\<rparr>)
              | Inr self1 \<Rightarrow>
                  if job_metric_collector self1
                  then (case t of
                          None \<Rightarrow> (Some AttributeError, self1)
                        | Some t1 \<Rightarrow>
                            if task_type t1 = PREDICTION
                            then (case collect_runtime_stats self1 of
                                    Some e \<Rightarrow> (Some e, self1)
                                  | None \<Rightarrow> check_start_auto_scale_worker ctx self1 sm)
                            else (None, self1))
                  else (None, self1)))"

text \<open>
  \<open>report_global_step\<close>: the step goes to the speed monitor, whose answers afterwards are
  \<open>sm\<close>.
\<close>

definition report_global_step ::
  "Context \<Rightarrow> 'd MasterServicer \<Rightarrow> SpeedMonitor \<Rightarrow> py_error option \<times> 'd MasterServicer" where
  "report_global_step ctx self sm =
     (case collect_runtime_stats self of
        Some e \<Rightarrow> (Some e, self)
      | None \<Rightarrow> check_start_auto_scale_worker ctx self sm)"

text \<open>The request and the response of \<open>get_task\<close>.\<close>

record GetTaskRequest =
  req_dataset_name :: string
  worker_type :: NodeType
  worker_id :: int

record TaskMessage =
  res_task_id :: int
  res_type :: TaskType
  res_shard :: Shard
  model_version :: int

text \<open>
  Modelled from the spec: the message classes of \<open>elastic_training_pb2\<close> are not among the
  source files; a new \<open>Task\<close> message with a new \<open>Shard\<close> is the "empty task" of the spec,
  with every field at its default and the type \<open>NONE\<close>.
\<close>

definition new_TaskMessage :: TaskMessage where
  "new_TaskMessage =
     \<lparr>res_task_id = 0, res_type = NONE,
      res_shard = \<lparr>shard_name = [], shard_start = 0, shard_end = 0, record_indices = []\<rparr>,
      model_version = 0\<rparr>"

text \<open>
  \<open>get_task\<close>. The clock is read up to three times in one call: by the servicer for
  \<open>_start_training_time\<close> (\<open>now_start\<close>), by \<open>get_dataset_task\<close> (\<open>now_pull\<close>) and by
  \<open>reset_worker_start_task_time\<close> (\<open>now_reset\<close>). In \<open>if task:\<close> a \<open>Task\<close> object is true, as
  is every object whose class gives it neither a truth value nor a length (the spec gives
  a \<open>Task\<close> its id, type and shard only), so the \<open>elif\<close> is reached only for the \<open>None\<close> that
  \<open>get_dataset_task\<close> returns for an unknown dataset. \<open>dataset\<close> is the object looked up
  before the task is pulled, so \<open>dataset.completed()\<close> sees the dataset after the pull,
  which is the entry of its name in the task manager then. With a rendezvous server and
  no node manager, \<open>self._node_manager.get_running_workers()\<close> raises.
\<close>

definition get_task ::
  "('d, 'sp, 'ck) DatasetOps \<Rightarrow> 'd MasterServicer \<Rightarrow> GetTaskRequest \<Rightarrow> real \<Rightarrow> real \<Rightarrow> real
     \<Rightarrow> (py_error + TaskMessage) \<times> 'd MasterServicer" where
  "get_task ops self request now_start now_pull now_reset =
     (let self1 =
            (if start_training_time self = None \<or> start_training_time self = Some 0
             then self\<lparr>start_training_time := Some (py_int now_start)\<rparr> else self);
          res = new_TaskMessage\<lparr>model_version := version self1\<rparr>;
          ds_name = req_dataset_name request
      in case get_dataset (task_manager self1) ds_name of
           None \<Rightarrow> (Inr res, self1)
         | Some dataset0 \<Rightarrow>
             (let (t, tm) =
                    get_dataset_task ops (task_manager self1) (worker_type request)
                      (worker_id request) ds_name now_pull;
                  self2 = self1\<lparr>task_manager := tm\<rparr>;
                  dataset = (case get_dataset tm ds_name of None \<Rightarrow> dataset0 | Some d \<Rightarrow> d);
                  r =
                    (case t of
                       Some t1 \<Rightarrow>
                         Inr (res\<lparr>res_task_id := task_id t1, res_type := task_type t1,
                                  res_shard := shard t1\<rparr>)
                     | None \<Rightarrow>
                         if \<not> ds_completed ops dataset
                         then (if rendezvous_server self2
                               then (case node_manager self2 of
                                       None \<Rightarrow> Inl AttributeError
                                     | Some nm \<Rightarrow>
                                         if length (running_workers nm) = 1
                                         then Inr (res\<lparr>res_type := WAIT\<rparr>) else Inr res)
                               else Inr (res\<lparr>res_type := WAIT\<rparr>))
                         else Inr res)
              in case r of
                   Inl e \<Rightarrow> (Inl e, self2)
                 | Inr res1 \<Rightarrow>
                     (Inr res1,
                      self2\<lparr>task_manager :=
                        reset_worker_start_task_time tm (worker_id request) now_reset\<rparr>)))"

text \<open>
  A call of the servicer, with what the clock and the speed monitor answer during it, and
  the servicer after a call and after a sequence of calls. An exception ends the call; the
  servicer keeps what the call had assigned before and serves the next call.
\<close>

datatype ServicerCall =
  GetTask GetTaskRequest real real real
| ReportTaskResult TaskResult real SpeedMonitor
| ReportGlobalStep SpeedMonitor

fun servicer_call ::
  "('d, 'sp, 'ck) DatasetOps \<Rightarrow> Context \<Rightarrow> 'd MasterServicer \<Rightarrow> ServicerCall
     \<Rightarrow> 'd MasterServicer" where
  "servicer_call ops ctx self (GetTask request now_start now_pull now_reset) =
     snd (get_task ops self request now_start now_pull now_reset)"
| "servicer_call ops ctx self (ReportTaskResult request now sm) =
     snd (report_task_result ops ctx self request now sm)"
| "servicer_call ops ctx self (ReportGlobalStep sm) = snd (report_global_step ctx self sm)"

definition servicer_calls ::
  "('d, 'sp, 'ck) DatasetOps \<Rightarrow> Context \<Rightarrow> 'd MasterServicer \<Rightarrow> ServicerCall list
     \<Rightarrow> 'd MasterServicer" where
  "servicer_calls ops ctx self calls = foldl (servicer_call ops ctx) self calls"

text \<open>How many times \<open>start_auto_scale()\<close> has been called on the servicer's node manager.\<close>

definition auto_scale_calls :: "'d MasterServicer \<Rightarrow> nat" where
  "auto_scale_calls self =
     (case node_manager self of None \<Rightarrow> 0 | Some nm \<Rightarrow> auto_scale_started nm)"

text \<open>
  How the flag and the number of calls of \<open>start_auto_scale()\<close> can differ between a servicer
  and a later one: once the flag is set both stay as they are; before, either nothing has
  changed or one call has been made and the flag is set.
\<close>

definition autoscale_latch :: "'d MasterServicer \<Rightarrow> 'd MasterServicer \<Rightarrow> bool" where
  "autoscale_latch self self' \<longleftrightarrow>
     (if start_autoscale self
      then start_autoscale self' \<and> auto_scale_calls self' = auto_scale_calls self
      else auto_scale_calls self' = auto_scale_calls self \<and> \<not> start_autoscale self'
           \<or> auto_scale_calls self' = auto_scale_calls self + 1 \<and> start_autoscale self')"

section \<open>diagnosis/datacollector/atorch_event_collector.py: the event collector\<close>

text \<open>
  What \<open>parse_line\<close> takes from modules that are not among the source files: the names of
  the event targets, event names and event types, the number of prefixes of an event
  line, and three library computations on a line, namely \<open>re.findall\<close> of the prefix pattern,
  the timestamp of an ISO date (\<open>int(datetime.fromisoformat(s).timestamp())\<close>) and the global
  step of the text after the prefixes (\<open>literal_eval\<close>, the test for a dictionary and
  \<open>int(text["global_step"])\<close>), each with the exception it may raise.
\<close>

record ParseEnv =
  TRAINER :: string
  SAVER :: string
  TRAIN_EVT_STEP :: string
  TRAIN_EVT_FLASH_CKPT :: string
  BEGIN :: string
  END :: string
  max_event_prefix :: nat
  findall_prefix :: "string \<Rightarrow> string list"
  iso_timestamp :: "string \<Rightarrow> py_error + int"
  literal_global_step :: "string \<Rightarrow> py_error + int"

record AtorchEvent =
  event_ts :: int
  event_target :: string
  event_name :: string
  event_type :: string
  event_step :: int

text \<open>\<open>xs[i]\<close> for an index that is not negative.\<close>

definition py_index :: "'a list \<Rightarrow> nat \<Rightarrow> py_error + 'a" where
  "py_index xs i = (if i < length xs then Inr (xs ! i) else Inl IndexError)"

definition parse_line :: "ParseEnv \<Rightarrow> string \<Rightarrow> py_error + AtorchEvent" where
  "parse_line env line =
     (let match = findall_prefix env line
      in if match = [] then Inl AtorchNotFoundException
         else if length match \<noteq> max_event_prefix env then Inl AtorchInvalidException
         else
           (case py_index match 0 of Inl e \<Rightarrow> Inl e | Inr m0 \<Rightarrow>
           (case iso_timestamp env m0 of Inl e \<Rightarrow> Inl e | Inr ts \<Rightarrow>
           (case py_index match 3 of Inl e \<Rightarrow> Inl e | Inr target \<Rightarrow>
              if target \<noteq> TRAINER env \<and> target \<noteq> SAVER env then Inl AtorchNotFoundException
              else
           (case py_index match 4 of Inl e \<Rightarrow> Inl e | Inr ename \<Rightarrow>
              if ename \<noteq> TRAIN_EVT_STEP env \<and> ename \<noteq> TRAIN_EVT_FLASH_CKPT env
              then Inl AtorchNotFoundException
              else
           (case py_index match 5 of Inl e \<Rightarrow> Inl e | Inr etype \<Rightarrow>
              if etype \<noteq> BEGIN env \<and> etype \<noteq> END env then Inl AtorchNotFoundException
              else
           (case literal_global_step env line of Inl e \<Rightarrow> Inl e | Inr stp \<Rightarrow>
              Inr \<lparr>event_ts = ts, event_target = target, event_name = ename,
                   event_type = etype, event_step = stp\<rparr>)))))))"

text \<open>
  The collector. \<open>client_reports\<close> is the master client seen from the collector: the events
  passed to \<open>report_atorch_event\<close>, in order.
\<close>

record AtorchEventCollector =
  first_step :: "int option"
  stop_collector :: bool
  client_reports :: "AtorchEvent list"

definition new_AtorchEventCollector :: AtorchEventCollector where
  "new_AtorchEventCollector =
     \<lparr>first_step = None, stop_collector = False, client_reports = []\<rparr>"

definition report_event :: "AtorchEventCollector \<Rightarrow> AtorchEvent \<Rightarrow> AtorchEventCollector" where
  "report_event self ev = self\<lparr>client_reports := client_reports self @ [ev]\<rparr>"

text \<open>The test for the event that sets \<open>_first_step\<close>.\<close>

definition is_step_begin :: "ParseEnv \<Rightarrow> AtorchEvent \<Rightarrow> bool" where
  "is_step_begin env ev \<longleftrightarrow>
     event_target ev = TRAINER env \<and> event_name ev = TRAIN_EVT_STEP env
       \<and> event_type ev = BEGIN env"

text \<open>The two \<open>if\<close> statements of the loop of \<open>_monitor_file\<close> after a line has been parsed.\<close>

definition monitor_event ::
  "ParseEnv \<Rightarrow> AtorchEventCollector \<Rightarrow> AtorchEvent \<Rightarrow> AtorchEventCollector" where
  "monitor_event env self ev =
     (let self1 =
            (if first_step self = None \<and> is_step_begin env ev
             then self\<lparr>first_step := Some (event_step ev)\<rparr> else self)
      in if first_step self1 \<noteq> None \<and> Some (event_step ev) \<noteq> first_step self1
         then report_event self1 ev else self1)"

text \<open>
  The loops of \<open>_monitor_file\<close> that \<open>start_collectors\<close> starts, one for each local rank, all
  on the one collector object and so on the one \<open>_first_step\<close>. A step is one iteration of
  the loop of a rank on the line that its \<open>readline\<close> returned from the file of that rank
  (an empty read sleeps and reads again, and changes nothing); the list holds the
  iterations of all loops in the order in which they happen, whatever that order is. A
  single loop running alone is a list of steps of one rank. Every exception of
  \<open>parse_line\<close> is caught and the next line is read. A loop ends when the stop flag is set,
  so a run sees a finite list of steps. An iteration is taken as a whole: the steps of two
  loops do not overlap inside the two \<open>if\<close> statements.
\<close>

fun monitor_files ::
  "ParseEnv \<Rightarrow> AtorchEventCollector \<Rightarrow> (nat \<times> string) list \<Rightarrow> AtorchEventCollector" where
  "monitor_files env self [] = self"
| "monitor_files env self ((rank, line) # rest) =
     (if stop_collector self then self
      else (case parse_line env line of
              Inl e \<Rightarrow> monitor_files env self rest
            | Inr ev \<Rightarrow> monitor_files env (monitor_event env self ev) rest))"

text \<open>The lines that the loop of one rank has read from its file, in order.\<close>

definition lines_of_rank :: "nat \<Rightarrow> (nat \<times> string) list \<Rightarrow> string list" where
  "lines_of_rank rank steps = map snd (filter (\<lambda>step. fst step = rank) steps)"

text \<open>The events of the lines of a list that parse, in order.\<close>

fun parsed_events :: "ParseEnv \<Rightarrow> string list \<Rightarrow> AtorchEvent list" where
  "parsed_events env [] = []"
| "parsed_events env (line # rest) =
     (case parse_line env line of
        Inl e \<Rightarrow> parsed_events env rest
      | Inr ev \<Rightarrow> ev # parsed_events env rest)"

text \<open>The events of a list that come after its first step-begin event.\<close>

definition after_step_begin :: "ParseEnv \<Rightarrow> AtorchEvent list \<Rightarrow> AtorchEvent list" where
  "after_step_begin env evs = tl (dropWhile (\<lambda>ev. \<not> is_step_begin env ev) evs)"

section \<open>Example inputs\<close>

text \<open>
  Concrete values for the constants and collaborators that the source files do not hold,
  used where a statement is evaluated at one input.
\<close>

definition ex_limit :: NodeResourceLimit where
  "ex_limit = \<lparr>MIN_VALID_MEMORY = 1024, MIN_VALID_CPU = 2, MAX_PS_NUM = 15,
               MAX_MEMORY = 65536, INCREMENTAL_MEMORY_FACTOR = 3 / 2\<rparr>"

definition ex_group :: "int \<Rightarrow> real \<Rightarrow> int \<Rightarrow> NodeGroupResource" where
  "ex_group n c m = \<lparr>count = n, node_resource = \<lparr>cpu = c, memory = m\<rparr>\<rparr>"

definition ex_plan :: "NodeType \<Rightarrow> NodeGroupResource \<Rightarrow> ResourcePlan" where
  "ex_plan t g = \<lparr>node_group_resources = [(t, g)], node_resources = []\<rparr>"

definition no_plan :: ResourcePlan where
  "no_plan = \<lparr>node_group_resources = [], node_resources = []\<rparr>"

definition ex_both :: "NodeGroupResource \<Rightarrow> ResourcePlan" where
  "ex_both g = \<lparr>node_group_resources = [(WORKER, g), (PS, g)], node_resources = []\<rparr>"

definition ex_node :: Node where
  "ex_node = \<lparr>name = ''worker-0'', config_resource = \<lparr>cpu = 4, memory = 8192\<rparr>\<rparr>"

definition ex_optimizer :: "ResourcePlan option \<Rightarrow> ResourceOptimizer" where
  "ex_optimizer p = \<lparr>generate_opt_plan = (\<lambda>stage config. p),
                     generate_oom_recovery_plan = (\<lambda>nodes stage. p)\<rparr>"

definition ex_update :: "NodeGroupResource \<Rightarrow> int \<Rightarrow> real \<Rightarrow> int \<Rightarrow> NodeGroupResource" where
  "ex_update g n c m = g"

definition ex_ctx :: Context where
  "ex_ctx = \<lparr>easydl_worker_enabled = True, easydl_ps_enabled = True,
              seconds_to_autoscale_worker = 90, sample_count_to_adjust_worker = 5\<rparr>"

definition ex_self :: JobResourceOptimizer where
  "ex_self = (new_JobResourceOptimizer (ex_group 4 4 8192) (ex_group 2 3 2048))
               \<lparr>job_stage := WORKER_INITIAL\<rparr>"

definition ex_assign_update ::
  "NodeGroupResource \<Rightarrow> int \<Rightarrow> real \<Rightarrow> int \<Rightarrow> NodeGroupResource" where
  "ex_assign_update g n c m =
     g\<lparr>count := (if 0 < n then n else count g),
       node_resource :=
         \<lparr>cpu = (if 0 < c then c else cpu (node_resource g)),
          memory = (if 0 < m then m else memory (node_resource g))\<rparr>\<rparr>"

definition ex_job_env :: JobEnv where
  "ex_job_env =
     \<lparr>env_context = ex_ctx, env_limit = ex_limit, env_update = ex_assign_update,
      env_adjust = (\<lambda>plan. plan), env_default_plan = no_plan\<rparr>"

definition ex_declared :: JobResourceOptimizer where
  "ex_declared = new_JobResourceOptimizer (ex_group 4 4 8192) (ex_group 20 3 2048)"

definition ex_proposal :: ResourceOptimizer where
  "ex_proposal = ex_optimizer (Some (ex_both (ex_group 16 2 16384)))"

text \<open>
  A small dataset manager for the examples: a queue of tasks to hand out, the doing-tasks
  and the latest end time; a failed task goes back to the head of the queue, the task
  handed out by an empty queue is a placeholder with the id \<open>-1\<close> and the type \<open>NONE\<close>, and
  a checkpoint is a dataset name with the dataset to restore.
\<close>

record ExDataset =
  ex_todo :: "Task list"
  ex_doing :: "(int \<times> DoingTask) list"
  ex_latest_task_end_time :: real

definition ex_invalid_task :: Task where
  "ex_invalid_task =
     \<lparr>task_id = - 1, task_type = NONE,
      shard = \<lparr>shard_name = [], shard_start = - 1, shard_end = - 1, record_indices = []\<rparr>\<rparr>"

definition ex_task :: "int \<Rightarrow> TaskType \<Rightarrow> Task" where
  "ex_task i t =
     \<lparr>task_id = i, task_type = t,
      shard = \<lparr>shard_name = ''train'', shard_start = 100 * i, shard_end = 100 * i + 100,
               record_indices = []\<rparr>\<rparr>"

definition ex_doing_task :: "int \<Rightarrow> TaskType \<Rightarrow> int \<Rightarrow> DoingTask" where
  "ex_doing_task i t n = \<lparr>task = ex_task i t, node_type = WORKER, node_id = n, start_time = 0\<rparr>"

definition ex_ops :: "(ExDataset, Task list, string \<times> ExDataset) DatasetOps" where
  "ex_ops =
     \<lparr>new_BatchDatasetManager =
        (\<lambda>ttype batch_size splitter.
           \<lparr>ex_todo = splitter, ex_doing = [], ex_latest_task_end_time = 0\<rparr>),
      ds_get_task =
        (\<lambda>d ntype nid.
           case ex_todo d of
             [] \<Rightarrow> (ex_invalid_task, d)
           | t # ts \<Rightarrow>
               (t, d\<lparr>ex_todo := ts,
                     ex_doing := ex_doing d @
                       [(task_id t, \<lparr>task = t, node_type = ntype, node_id = nid,
                                     start_time = 0\<rparr>)]\<rparr>)),
      ds_completed = (\<lambda>d. ex_todo d = [] \<and> ex_doing d = []),
      ds_report_task_status =
        (\<lambda>d tid success.
           case map_of (ex_doing d) tid of
             None \<Rightarrow> ((False, None), d)
           | Some dt \<Rightarrow>
               if success
               then ((True, Some dt), d\<lparr>ex_doing := AList.delete tid (ex_doing d)\<rparr>)
               else ((False, Some dt),
                     d\<lparr>ex_todo := task dt # ex_todo d,
                       ex_doing := AList.delete tid (ex_doing d)\<rparr>)),
      ds_get_latest_task_end_time = ex_latest_task_end_time,
      ds_doing = ex_doing,
      ds_restore_checkpoint = (\<lambda>d ck. (None, snd ck)),
      ckpt_from_json =
        (\<lambda>content.
           if content = [] then Inl ValueError
           else Inr (content, \<lparr>ex_todo = [], ex_doing = [], ex_latest_task_end_time = 0\<rparr>)),
      ckpt_dataset_name = fst\<rparr>"

definition ex_dataset :: "Task list \<Rightarrow> (int \<times> DoingTask) list \<Rightarrow> real \<Rightarrow> ExDataset" where
  "ex_dataset todo doing end_time =
     \<lparr>ex_todo = todo, ex_doing = doing, ex_latest_task_end_time = end_time\<rparr>"

definition ex_task_manager :: "(string \<times> ExDataset) list \<Rightarrow> ExDataset TaskManager" where
  "ex_task_manager ds = (new_TaskManager 60)\<lparr>datasets := ds\<rparr>"

definition ex_request :: GetTaskRequest where
  "ex_request = \<lparr>req_dataset_name = ''train'', worker_type = WORKER, worker_id = 7\<rparr>"

definition ex_servicer :: "(string \<times> ExDataset) list \<Rightarrow> ExDataset MasterServicer" where
  "ex_servicer ds =
     new_MasterServicer (ex_task_manager ds)
       (Some \<lparr>running_workers = [7], auto_scale_started = 0\<rparr>) False False"

definition ex_waiting_servicer :: "ExDataset MasterServicer" where
  "ex_waiting_servicer =
     ex_servicer [(''train'', ex_dataset [] [(0, ex_doing_task 0 TRAINING 8)] 0)]"

definition ex_sweep_manager :: "ExDataset TaskManager" where
  "ex_sweep_manager =
     (new_TaskManager 60)
       \<lparr>datasets :=
          [(''train'', ex_dataset [] [(0, ex_doing_task 0 TRAINING 1)] 0),
           (''eval'', ex_dataset []
              [(3, ex_doing_task 3 EVALUATION 2), (4, ex_doing_task 4 EVALUATION 3)] 0)],
        worker_start_task_time := [(1, 0), (2, 10), (3, 20)],
        task_timeout_callbacks := [0]\<rparr>"

definition ex_started_servicer :: "ExDataset MasterServicer" where
  "ex_started_servicer =
     (ex_servicer [(''train'', ex_dataset [ex_task 0 PREDICTION] [] 0)])
       \<lparr>start_training_time := Some 10, job_metric_collector := True\<rparr>"

definition ex_calls :: "ServicerCall list" where
  "ex_calls =
     [GetTask ex_request 20 20 20,
      ReportTaskResult \<lparr>result_task_id = 0, result_dataset_name = ''train'', err_message = []\<rparr>
        110 \<lparr>completed_global_step = 0, sample_count = 10\<rparr>,
      ReportGlobalStep \<lparr>completed_global_step = 40, sample_count = 10\<rparr>]"

text \<open>
  Event lines for the examples, with what the library computations give for each: three
  lines that parse and, for every other line, no prefix at all.
\<close>

definition ex_prefix :: "string \<Rightarrow> string \<Rightarrow> string \<Rightarrow> string list" where
  "ex_prefix target ename etype = [''2025-01-01T00:00:00'', ''pid'', ''rank'', target, ename, etype]"

definition ex_env :: ParseEnv where
  "ex_env =
     \<lparr>TRAINER = ''trainer'', SAVER = ''saver'', TRAIN_EVT_STEP = ''#step'',
      TRAIN_EVT_FLASH_CKPT = ''#ckpt'', BEGIN = ''BEGIN'', END = ''END'',
      max_event_prefix = 6,
      findall_prefix =
        (\<lambda>line.
           if line = ''step begin 1'' then ex_prefix ''trainer'' ''#step'' ''BEGIN''
           else if line = ''step end 1'' then ex_prefix ''trainer'' ''#step'' ''END''
           else if line = ''ckpt begin 2'' then ex_prefix ''saver'' ''#ckpt'' ''BEGIN''
           else []),
      iso_timestamp = (\<lambda>s. Inr 1735689600),
      literal_global_step =
        (\<lambda>line.
           if line = ''step begin 1'' then Inr 1
           else if line = ''step end 1'' then Inr 1
           else if line = ''ckpt begin 2'' then Inr 2
           else Inl SyntaxError)\<rparr>"

definition ex_event :: "string \<Rightarrow> string \<Rightarrow> string \<Rightarrow> int \<Rightarrow> AtorchEvent" where
  "ex_event target ename etype stp =
     \<lparr>event_ts = 1735689600, event_target = target, event_name = ename,
      event_type = etype, event_step = stp\<rparr>"

definition ex_steps :: "(nat \<times> string) list" where
  "ex_steps =
     [(1, ''ckpt begin 2''), (0, ''noise''), (0, ''step begin 1''), (1, ''step end 1''),
      (1, ''ckpt begin 2'')]"

section \<open>Properties of the job resource optimizer\<close>

subsection \<open>The user-override filter\<close>

lemma check_worker_cases:
  "check_ignore_original_worker_resource lmt self num c m = (n', c', m') \<Longrightarrow>
     (0 < count (original_worker_resource self) \<longrightarrow> n' = count (original_worker_resource self)) \<and>
     (MIN_VALID_MEMORY lmt \<le> memory (node_resource (original_worker_resource self)) \<longrightarrow>
        m' = memory (node_resource (original_worker_resource self))) \<and>
     (MIN_VALID_CPU lmt \<le> cpu (node_resource (original_worker_resource self)) \<longrightarrow>
        c' = cpu (node_resource (original_worker_resource self)))"
  by (auto simp: check_ignore_original_worker_resource_def Let_def)

lemma check_ps_cases:
  "check_ignore_original_ps_resource lmt self num c m = (n', c', m') \<Longrightarrow>
     (0 < count (original_ps_resource self) \<longrightarrow> n' = count (original_ps_resource self)) \<and>
     (MIN_VALID_MEMORY lmt \<le> memory (node_resource (original_ps_resource self)) \<longrightarrow>
        m' = memory (node_resource (original_ps_resource self))) \<and>
     (MIN_VALID_CPU lmt \<le> cpu (node_resource (original_ps_resource self)) \<longrightarrow>
        c' = cpu (node_resource (original_ps_resource self)))"
  by (auto simp: check_ignore_original_ps_resource_def Let_def)

lemma set_group_sel [simp]:
  "count (set_group g n c m) = n"
  "cpu (node_resource (set_group g n c m)) = c"
  "memory (node_resource (set_group g n c m)) = m"
  by (simp_all add: set_group_def)

text \<open>
  One application of a group of a plan by \<open>_verify_optimized_group_resource\<close>, in any state
  of the optimizer object: the values that the user set are kept, and the live PS count is
  cut to \<open>MAX_PS_NUM\<close>.
\<close>

lemma verify_optimized_group_resource_user_override:
  "(map_of (node_group_resources plan) WORKER = Some g \<longrightarrow>
      (\<exists>self' plan'.
         verify_optimized_group_resource lmt self plan WORKER = Inr (self', plan') \<and>
         original_worker_resource self' = original_worker_resource self \<and>
         (0 < count (original_worker_resource self) \<longrightarrow>
            count (worker_resource self') = count (original_worker_resource self)) \<and>
         (MIN_VALID_MEMORY lmt \<le> memory (node_resource (original_worker_resource self)) \<longrightarrow>
            memory (node_resource (worker_resource self')) =
              memory (node_resource (original_worker_resource self))) \<and>
         (MIN_VALID_CPU lmt \<le> cpu (node_resource (original_worker_resource self)) \<longrightarrow>
            cpu (node_resource (worker_resource self')) =
              cpu (node_resource (original_worker_resource self))))) \<and>
   (map_of (node_group_resources plan) PS = Some g \<longrightarrow>
      (\<exists>self' plan'.
         verify_optimized_group_resource lmt self plan PS = Inr (self', plan') \<and>
         original_ps_resource self' = original_ps_resource self \<and>
         count (ps_resource self') \<le> MAX_PS_NUM lmt \<and>
         (0 < count (original_ps_resource self) \<longrightarrow>
            count (ps_resource self') =
              min (count (original_ps_resource self)) (MAX_PS_NUM lmt)) \<and>
         (MIN_VALID_MEMORY lmt \<le> memory (node_resource (original_ps_resource self)) \<longrightarrow>
            memory (node_resource (ps_resource self')) =
              memory (node_resource (original_ps_resource self))) \<and>
         (MIN_VALID_CPU lmt \<le> cpu (node_resource (original_ps_resource self)) \<longrightarrow>
            cpu (node_resource (ps_resource self')) =
              cpu (node_resource (original_ps_resource self)))))"
proof (intro conjI impI)
  assume g: "map_of (node_group_resources plan) WORKER = Some g"
  obtain n c m where chk:
    "check_ignore_original_worker_resource lmt self (count g) (cpu (node_resource g))
       (memory (node_resource g)) = (n, c, m)"
    by (metis prod_cases3)
  from check_worker_cases [OF chk] g chk
  show "\<exists>self' plan'.
         verify_optimized_group_resource lmt self plan WORKER = Inr (self', plan') \<and>
         original_worker_resource self' = original_worker_resource self \<and>
         (0 < count (original_worker_resource self) \<longrightarrow>
            count (worker_resource self') = count (original_worker_resource self)) \<and>
         (MIN_VALID_MEMORY lmt \<le> memory (node_resource (original_worker_resource self)) \<longrightarrow>
            memory (node_resource (worker_resource self')) =
              memory (node_resource (original_worker_resource self))) \<and>
         (MIN_VALID_CPU lmt \<le> cpu (node_resource (original_worker_resource self)) \<longrightarrow>
            cpu (node_resource (worker_resource self')) =
              cpu (node_resource (original_worker_resource self)))"
    by (simp add: verify_optimized_group_resource_def)
next
  assume g: "map_of (node_group_resources plan) PS = Some g"
  obtain n c m where chk:
    "check_ignore_original_ps_resource lmt self (count g) (cpu (node_resource g))
       (memory (node_resource g)) = (n, c, m)"
    by (metis prod_cases3)
  from check_ps_cases [OF chk] g chk
  show "\<exists>self' plan'.
         verify_optimized_group_resource lmt self plan PS = Inr (self', plan') \<and>
         original_ps_resource self' = original_ps_resource self \<and>
         count (ps_resource self') \<le> MAX_PS_NUM lmt \<and>
         (0 < count (original_ps_resource self) \<longrightarrow>
            count (ps_resource self') =
              min (count (original_ps_resource self)) (MAX_PS_NUM lmt)) \<and>
         (MIN_VALID_MEMORY lmt \<le> memory (node_resource (original_ps_resource self)) \<longrightarrow>
            memory (node_resource (ps_resource self')) =
              memory (node_resource (original_ps_resource self))) \<and>
         (MIN_VALID_CPU lmt \<le> cpu (node_resource (original_ps_resource self)) \<longrightarrow>
            cpu (node_resource (ps_resource self')) =
              cpu (node_resource (original_ps_resource self)))"
    by (simp add: verify_optimized_group_resource_def)
qed

lemma verify_optimized_group_resource_user_override_example:
  "(\<exists>self' plan'.
      verify_optimized_group_resource ex_limit
        (new_JobResourceOptimizer (ex_group 4 4 8192) (ex_group 2 3 2048))
        (ex_both (ex_group 16 2 16384)) WORKER = Inr (self', plan') \<and>
      count (worker_resource self') = 4 \<and>
      memory (node_resource (worker_resource self')) = 8192 \<and>
      cpu (node_resource (worker_resource self')) = 4) \<and>
   (\<exists>self' plan'.
      verify_optimized_group_resource ex_limit
        (new_JobResourceOptimizer (ex_group 4 4 8192) (ex_group 2 3 2048))
        (ex_both (ex_group 16 2 16384)) PS = Inr (self', plan') \<and>
      count (ps_resource self') = 2 \<and>
      memory (node_resource (ps_resource self')) = 2048 \<and>
      cpu (node_resource (ps_resource self')) = 3)"
  using verify_optimized_group_resource_user_override
    [of "ex_both (ex_group 16 2 16384)" "ex_group 16 2 16384" ex_limit
        "new_JobResourceOptimizer (ex_group 4 4 8192) (ex_group 2 3 2048)"]
  by (auto simp: ex_both_def ex_group_def ex_limit_def new_JobResourceOptimizer_def)

lemma verify_worker_override:
  assumes "map_of (node_group_resources plan) WORKER = Some g"
  shows "\<exists>self' plan'.
           verify_optimized_group_resource lmt self plan WORKER = Inr (self', plan') \<and>
           ps_resource self' = ps_resource self \<and>
           original_worker_resource self' = original_worker_resource self \<and>
           original_ps_resource self' = original_ps_resource self \<and>
           map_of (node_group_resources plan') PS = map_of (node_group_resources plan) PS \<and>
           user_override lmt (original_worker_resource self) (worker_resource self')"
proof -
  obtain n c m where chk:
    "check_ignore_original_worker_resource lmt self (count g) (cpu (node_resource g))
       (memory (node_resource g)) = (n, c, m)"
    by (metis prod_cases3)
  from check_worker_cases [OF chk] assms chk show ?thesis
    by (simp add: verify_optimized_group_resource_def user_override_def update_conv')
qed

lemma verify_ps_override:
  assumes "map_of (node_group_resources plan) PS = Some g"
  shows "\<exists>self' plan'.
           verify_optimized_group_resource lmt self plan PS = Inr (self', plan') \<and>
           worker_resource self' = worker_resource self \<and>
           original_worker_resource self' = original_worker_resource self \<and>
           original_ps_resource self' = original_ps_resource self \<and>
           ps_override lmt (original_ps_resource self) (ps_resource self')"
proof -
  obtain n c m where chk:
    "check_ignore_original_ps_resource lmt self (count g) (cpu (node_resource g))
       (memory (node_resource g)) = (n, c, m)"
    by (metis prod_cases3)
  from check_ps_cases [OF chk] assms chk show ?thesis
    by (simp add: verify_optimized_group_resource_def ps_override_def)
qed

text \<open>
  The snapshots of the resources that the user declared are never changed, neither by the
  filter nor by \<open>get_job_resource_plan\<close>, whatever the optimizer answers and whether or not
  the call raises; so the filter compares against the same values in every call of a
  sequence.
\<close>

lemma verify_optimized_group_resource_originals:
  "verify_optimized_group_resource lmt self plan nt = Inr (self', plan') \<Longrightarrow>
   original_worker_resource self' = original_worker_resource self \<and>
   original_ps_resource self' = original_ps_resource self"
  by (auto simp: verify_optimized_group_resource_def split: option.splits NodeType.splits prod.splits)

lemma get_worker_resource_at_running_originals:
  "get_worker_resource_at_running opt self = (p, self') \<Longrightarrow>
   original_worker_resource self' = original_worker_resource self \<and>
   original_ps_resource self' = original_ps_resource self"
  by (auto simp: get_worker_resource_at_running_def split: if_splits)

lemma get_job_resource_plan_originals:
  assumes "get_job_resource_plan lmt opt adjust self = (r, self')"
  shows "original_worker_resource self' = original_worker_resource self \<and>
         original_ps_resource self' = original_ps_resource self"
  using assms
  by (auto simp: get_job_resource_plan_def stage_plan_def Let_def
      split: JobOptStage.splits sum.splits option.splits if_splits prod.splits
      dest!: verify_optimized_group_resource_originals get_worker_resource_at_running_originals)

lemma stage_plan_frame:
  "stage_plan opt self = (r, self1) \<Longrightarrow>
   worker_resource self1 = worker_resource self \<and> ps_resource self1 = ps_resource self \<and>
   original_worker_resource self1 = original_worker_resource self \<and>
   original_ps_resource self1 = original_ps_resource self"
  by (auto simp: stage_plan_def get_worker_resource_at_running_def
      split: JobOptStage.splits sum.splits option.splits if_splits)

lemma get_job_resource_plan_filter:
  assumes sp: "stage_plan opt self = (Inr (Some plan), self1)" and ne: "\<not> plan_empty plan"
  shows "\<exists>p self'.
           get_job_resource_plan lmt opt adjust self = (Inr (Some p), self') \<and>
           (map_of (node_group_resources plan) WORKER \<noteq> None \<longrightarrow>
              user_override lmt (original_worker_resource self) (worker_resource self')) \<and>
           (map_of (node_group_resources plan) PS \<noteq> None \<longrightarrow>
              ps_override lmt (original_ps_resource self) (ps_resource self'))"
proof -
  note fr = stage_plan_frame [OF sp]
  have "\<exists>self2 plan2.
      (if map_of (node_group_resources plan) WORKER \<noteq> None
       then verify_optimized_group_resource lmt self1 plan WORKER
       else Inr (self1, plan)) = Inr (self2, plan2) \<and>
      map_of (node_group_resources plan2) PS = map_of (node_group_resources plan) PS \<and>
      original_ps_resource self2 = original_ps_resource self \<and>
      ps_resource self2 = ps_resource self \<and>
      (map_of (node_group_resources plan) WORKER \<noteq> None \<longrightarrow>
         user_override lmt (original_worker_resource self) (worker_resource self2))"
  proof (cases "map_of (node_group_resources plan) WORKER")
    case None
    with fr show ?thesis by simp
  next
    case (Some g)
    from verify_worker_override [OF Some, of lmt self1]
    obtain s' p' where v:
      "verify_optimized_group_resource lmt self1 plan WORKER = Inr (s', p')"
      "ps_resource s' = ps_resource self1"
      "original_ps_resource s' = original_ps_resource self1"
      "map_of (node_group_resources p') PS = map_of (node_group_resources plan) PS"
      "user_override lmt (original_worker_resource self1) (worker_resource s')"
      by blast
    with Some fr show ?thesis by simp
  qed
  then obtain self2 plan2 where w:
    "(if map_of (node_group_resources plan) WORKER \<noteq> None
      then verify_optimized_group_resource lmt self1 plan WORKER
      else Inr (self1, plan)) = Inr (self2, plan2)"
    and w_ps: "map_of (node_group_resources plan2) PS = map_of (node_group_resources plan) PS"
    and w_orig: "original_ps_resource self2 = original_ps_resource self"
    and w_ov: "map_of (node_group_resources plan) WORKER \<noteq> None \<longrightarrow>
                 user_override lmt (original_worker_resource self) (worker_resource self2)"
    by blast
  have "\<exists>self3 plan3.
      (if map_of (node_group_resources plan2) PS \<noteq> None
       then verify_optimized_group_resource lmt self2 plan2 PS
       else Inr (self2, plan2)) = Inr (self3, plan3) \<and>
      worker_resource self3 = worker_resource self2 \<and>
      (map_of (node_group_resources plan) PS \<noteq> None \<longrightarrow>
         ps_override lmt (original_ps_resource self) (ps_resource self3))"
  proof (cases "map_of (node_group_resources plan2) PS")
    case None
    with w_ps show ?thesis by simp
  next
    case (Some g)
    from verify_ps_override [OF Some, of lmt self2]
    obtain s' p' where v:
      "verify_optimized_group_resource lmt self2 plan2 PS = Inr (s', p')"
      "worker_resource s' = worker_resource self2"
      "ps_override lmt (original_ps_resource self2) (ps_resource s')"
      by blast
    with Some w_orig show ?thesis by simp
  qed
  then obtain self3 plan3 where p:
    "(if map_of (node_group_resources plan2) PS \<noteq> None
      then verify_optimized_group_resource lmt self2 plan2 PS
      else Inr (self2, plan2)) = Inr (self3, plan3)"
    and p_w: "worker_resource self3 = worker_resource self2"
    and p_ov: "map_of (node_group_resources plan) PS \<noteq> None \<longrightarrow>
                 ps_override lmt (original_ps_resource self) (ps_resource self3)"
    by blast
  have "get_job_resource_plan lmt opt adjust self = (Inr (Some (adjust plan3)), self3)"
    using sp ne w p by (simp add: get_job_resource_plan_def)
  with w_ov p_w p_ov show ?thesis by auto
qed

lemma adjust_oom_ps_resource_replan:
  assumes "generate_oom_recovery_plan opt [name node] PS_INITIAL = Some plan"
    and "\<not> plan_empty plan"
    and "map_of (node_group_resources plan) PS = Some ps"
    and "\<not> training_started" and "0 < count ps"
    and "memory (node_resource ps) < MAX_MEMORY lmt"
  shows "\<exists>p self'.
           adjust_oom_ps_resource lmt opt adjust self node training_started
             = Inr (p, self', node) \<and>
           ps_override lmt (original_ps_resource self) (ps_resource self')"
proof -
  from verify_ps_override [OF assms(3), of lmt self]
  obtain self' plan' where
    "verify_optimized_group_resource lmt self plan PS = Inr (self', plan')"
    "ps_override lmt (original_ps_resource self) (ps_resource self')"
    by blast
  with assms show ?thesis by (simp add: adjust_oom_ps_resource_def)
qed

lemma init_job_resource_by_optimizer_originals:
  "original_worker_resource
     (init_job_resource_by_optimizer ctx lmt opt update default_plan self)
     = original_worker_resource self \<and>
   original_ps_resource (init_job_resource_by_optimizer ctx lmt opt update default_plan self)
     = original_ps_resource self"
  by (simp add: init_job_resource_by_optimizer_def Let_def split: option.splits prod.splits)

lemma init_job_resource_by_optimizer_filter:
  assumes upd: "assigns_positive update"
    and mm: "0 < MIN_VALID_MEMORY lmt" and mc: "0 < MIN_VALID_CPU lmt"
  shows "(easydl_worker_enabled ctx \<and>
          map_of (node_group_resources (initial_plan opt default_plan self)) WORKER \<noteq> None \<longrightarrow>
            user_override lmt (original_worker_resource self)
              (worker_resource
                 (init_job_resource_by_optimizer ctx lmt opt update default_plan self))) \<and>
         (easydl_ps_enabled ctx \<and>
          map_of (node_group_resources (initial_plan opt default_plan self)) PS \<noteq> None \<longrightarrow>
            user_override lmt (original_ps_resource self)
              (ps_resource
                 (init_job_resource_by_optimizer ctx lmt opt update default_plan self)))"
proof -
  have a: "user_override lmt (original_worker_resource s) (update g n c m)"
    if "check_ignore_original_worker_resource lmt s n0 c0 m0 = (n, c, m)" for s g n c m n0 c0 m0
    using check_worker_cases [OF that] upd mm mc
    by (auto simp: user_override_def assigns_positive_def)
  have b: "user_override lmt (original_ps_resource s) (update g n c m)"
    if "check_ignore_original_ps_resource lmt s n0 c0 m0 = (n, c, m)" for s g n c m n0 c0 m0
    using check_ps_cases [OF that] upd mm mc
    by (auto simp: user_override_def assigns_positive_def)
  show ?thesis
    by (auto simp: init_job_resource_by_optimizer_def Let_def
        split: option.splits prod.splits dest: a b)
qed

lemma optimize_worker_resource_originals:
  "optimize_worker_resource opt update self = Inr self' \<Longrightarrow>
   original_worker_resource self' = original_worker_resource self \<and>
   original_ps_resource self' = original_ps_resource self"
  by (auto simp: optimize_worker_resource_def split: sum.splits option.splits)

lemma adjust_oom_worker_resource_originals:
  "adjust_oom_worker_resource ctx lmt opt update self node = Inr (self', node') \<Longrightarrow>
   original_worker_resource self' = original_worker_resource self \<and>
   original_ps_resource self' = original_ps_resource self"
  by (auto simp: adjust_oom_worker_resource_def Let_def
      split: sum.splits option.splits if_splits
      dest: optimize_worker_resource_originals)

lemma adjust_oom_ps_resource_originals:
  "adjust_oom_ps_resource lmt opt adjust self node training_started = Inr (p, self', node') \<Longrightarrow>
   original_worker_resource self' = original_worker_resource self \<and>
   original_ps_resource self' = original_ps_resource self"
  by (auto simp: adjust_oom_ps_resource_def Let_def
      split: sum.splits option.splits if_splits
      dest: verify_optimized_group_resource_originals)

lemma job_call_originals:
  "original_worker_resource (job_call env self c) = original_worker_resource self \<and>
   original_ps_resource (job_call env self c) = original_ps_resource self"
proof (cases c)
  case (InitJobResource opt)
  then show ?thesis by (simp add: init_job_resource_by_optimizer_originals)
next
  case (GetJobResourcePlan opt)
  then show ?thesis
    using get_job_resource_plan_originals
      [of "env_limit env" opt "env_adjust env" self
          "fst (get_job_resource_plan (env_limit env) opt (env_adjust env) self)"
          "snd (get_job_resource_plan (env_limit env) opt (env_adjust env) self)"]
    by simp
next
  case (OptimizeWorkerResource opt)
  then show ?thesis
    by (auto split: sum.splits dest: optimize_worker_resource_originals)
next
  case (AdjustOomWorkerResource opt node)
  then show ?thesis
    by (auto split: sum.splits dest: adjust_oom_worker_resource_originals)
next
  case (AdjustOomPsResource opt node ts)
  then show ?thesis
    by (auto split: sum.splits dest: adjust_oom_ps_resource_originals)
qed

lemma job_calls_originals:
  "original_worker_resource (job_calls env self calls) = original_worker_resource self \<and>
   original_ps_resource (job_calls env self calls) = original_ps_resource self"
  unfolding job_calls_def
  by (induction calls arbitrary: self) (simp_all add: job_call_originals)

lemma ex_assign_update_assigns_positive: "assigns_positive ex_assign_update"
  by (simp add: assigns_positive_def ex_assign_update_def)

lemma ex_job_calls:
  "job_calls ex_job_env ex_declared [InitJobResource ex_proposal]
   = ex_declared\<lparr>job_stage := WORKER_INITIAL\<rparr>"
  by (simp add: job_calls_def init_job_resource_by_optimizer_def initial_plan_def
      ex_job_env_def ex_declared_def ex_proposal_def ex_optimizer_def ex_both_def ex_group_def
      ex_ctx_def ex_limit_def ex_assign_update_def new_JobResourceOptimizer_def plan_empty_def
      check_ignore_original_worker_resource_def check_ignore_original_ps_resource_def)

text \<open>
  C1 (as amended). After every sequence of calls on a \<open>JobResourceOptimizer\<close>
  (\<open>init_job_resource\<close>, \<open>get_job_resource_plan\<close>, \<open>optimize_worker_resource\<close>,
  \<open>adjust_oom_worker_resource\<close> and \<open>adjust_oom_ps_resource\<close> in any order, whatever the
  optimizer answers), the original resources are those declared at the start, and
  whenever a next call applies a group that the optimizer proposes through the filter, the
  values that the user set win. When \<open>get_job_resource_plan\<close> gets a plan that is not empty
  for its stage, it returns a plan, and if the plan has a worker group the live worker
  count is the original count when that is positive, the live memory is the original
  memory when that is at least \<open>MIN_VALID_MEMORY\<close>, and the live cpu is the original cpu
  when that is at least \<open>MIN_VALID_CPU\<close>; if the plan has a PS group, memory and cpu
  likewise, the live PS count is at most \<open>MAX_PS_NUM\<close>, and it is the smaller of the
  original PS count and \<open>MAX_PS_NUM\<close> when the original count is positive. The same holds
  for the PS group when \<open>adjust_oom_ps_resource\<close> re-plans. After \<open>init_job_resource\<close> the
  values that the user set are kept for the worker and the PS group that it applies
  (nothing is said of \<open>MAX_PS_NUM\<close> there), provided that \<open>NodeGroupResource.update\<close>
  assigns positive values and the two minima are positive. Nothing is said of what
  \<open>optimize_worker_resource\<close> applies.
\<close>

theorem user_override_in_every_call_sequence:
  assumes self: "self = job_calls env self0 calls"
  shows "original_worker_resource self = original_worker_resource self0 \<and>
    original_ps_resource self = original_ps_resource self0 \<and>
    (stage_plan opt self = (Inr (Some plan), self1) \<and> \<not> plan_empty plan \<longrightarrow>
       (\<exists>p self'.
          get_job_resource_plan (env_limit env) opt (env_adjust env) self
            = (Inr (Some p), self') \<and>
          (map_of (node_group_resources plan) WORKER \<noteq> None \<longrightarrow>
             user_override (env_limit env) (original_worker_resource self0)
               (worker_resource self')) \<and>
          (map_of (node_group_resources plan) PS \<noteq> None \<longrightarrow>
             ps_override (env_limit env) (original_ps_resource self0) (ps_resource self')))) \<and>
    (generate_oom_recovery_plan opt [name node] PS_INITIAL = Some oom_plan \<and>
     \<not> plan_empty oom_plan \<and> map_of (node_group_resources oom_plan) PS = Some ps \<and>
     \<not> training_started \<and> 0 < count ps \<and>
     memory (node_resource ps) < MAX_MEMORY (env_limit env) \<longrightarrow>
       (\<exists>p self'.
          adjust_oom_ps_resource (env_limit env) opt (env_adjust env) self node
            training_started = Inr (p, self', node) \<and>
          ps_override (env_limit env) (original_ps_resource self0) (ps_resource self'))) \<and>
    (assigns_positive (env_update env) \<and> 0 < MIN_VALID_MEMORY (env_limit env) \<and>
     0 < MIN_VALID_CPU (env_limit env) \<longrightarrow>
       (easydl_worker_enabled (env_context env) \<and>
        map_of (node_group_resources (initial_plan opt (env_default_plan env) self)) WORKER
          \<noteq> None \<longrightarrow>
          user_override (env_limit env) (original_worker_resource self0)
            (worker_resource
               (init_job_resource_by_optimizer (env_context env) (env_limit env) opt
                  (env_update env) (env_default_plan env) self))) \<and>
       (easydl_ps_enabled (env_context env) \<and>
        map_of (node_group_resources (initial_plan opt (env_default_plan env) self)) PS
          \<noteq> None \<longrightarrow>
          user_override (env_limit env) (original_ps_resource self0)
            (ps_resource
               (init_job_resource_by_optimizer (env_context env) (env_limit env) opt
                  (env_update env) (env_default_plan env) self))))"
proof -
  from self job_calls_originals [of env self0 calls]
  have ow: "original_worker_resource self = original_worker_resource self0"
    and op: "original_ps_resource self = original_ps_resource self0"
    by simp_all
  have b: "\<exists>p self'.
          get_job_resource_plan (env_limit env) opt (env_adjust env) self
            = (Inr (Some p), self') \<and>
          (map_of (node_group_resources plan) WORKER \<noteq> None \<longrightarrow>
             user_override (env_limit env) (original_worker_resource self0)
               (worker_resource self')) \<and>
          (map_of (node_group_resources plan) PS \<noteq> None \<longrightarrow>
             ps_override (env_limit env) (original_ps_resource self0) (ps_resource self'))"
    if "stage_plan opt self = (Inr (Some plan), self1) \<and> \<not> plan_empty plan"
    using get_job_resource_plan_filter [of opt self plan self1 "env_limit env" "env_adjust env"]
      that ow op by simp
  have c: "\<exists>p self'.
          adjust_oom_ps_resource (env_limit env) opt (env_adjust env) self node
            training_started = Inr (p, self', node) \<and>
          ps_override (env_limit env) (original_ps_resource self0) (ps_resource self')"
    if "generate_oom_recovery_plan opt [name node] PS_INITIAL = Some oom_plan \<and>
     \<not> plan_empty oom_plan \<and> map_of (node_group_resources oom_plan) PS = Some ps \<and>
     \<not> training_started \<and> 0 < count ps \<and>
     memory (node_resource ps) < MAX_MEMORY (env_limit env)"
    using adjust_oom_ps_resource_replan
      [of opt node oom_plan ps training_started "env_limit env" "env_adjust env" self]
      that op by simp
  have d: "(easydl_worker_enabled (env_context env) \<and>
        map_of (node_group_resources (initial_plan opt (env_default_plan env) self)) WORKER
          \<noteq> None \<longrightarrow>
          user_override (env_limit env) (original_worker_resource self0)
            (worker_resource
               (init_job_resource_by_optimizer (env_context env) (env_limit env) opt
                  (env_update env) (env_default_plan env) self))) \<and>
       (easydl_ps_enabled (env_context env) \<and>
        map_of (node_group_resources (initial_plan opt (env_default_plan env) self)) PS
          \<noteq> None \<longrightarrow>
          user_override (env_limit env) (original_ps_resource self0)
            (ps_resource
               (init_job_resource_by_optimizer (env_context env) (env_limit env) opt
                  (env_update env) (env_default_plan env) self)))"
    if "assigns_positive (env_update env) \<and> 0 < MIN_VALID_MEMORY (env_limit env) \<and>
     0 < MIN_VALID_CPU (env_limit env)"
    using init_job_resource_by_optimizer_filter
      [of "env_update env" "env_limit env" "env_context env" opt "env_default_plan env" self]
      that ow op by simp
  from ow op b c d show ?thesis by blast
qed

theorem user_override_in_every_call_sequence_witness:
  "(\<exists>p self'.
      get_job_resource_plan ex_limit ex_proposal (\<lambda>plan. plan)
        (job_calls ex_job_env ex_declared [InitJobResource ex_proposal])
        = (Inr (Some p), self') \<and>
      count (worker_resource self') = 4 \<and>
      memory (node_resource (worker_resource self')) = 8192 \<and>
      cpu (node_resource (worker_resource self')) = 4 \<and>
      count (ps_resource self') = 15 \<and>
      memory (node_resource (ps_resource self')) = 2048 \<and>
      cpu (node_resource (ps_resource self')) = 3) \<and>
   (\<exists>p self'.
      adjust_oom_ps_resource ex_limit ex_proposal (\<lambda>plan. plan)
        (job_calls ex_job_env ex_declared [InitJobResource ex_proposal]) ex_node False
        = Inr (p, self', ex_node) \<and>
      count (ps_resource self') = 15) \<and>
   count (worker_resource
     (init_job_resource_by_optimizer ex_ctx ex_limit ex_proposal ex_assign_update no_plan
        (job_calls ex_job_env ex_declared [InitJobResource ex_proposal]))) = 4 \<and>
   count (ps_resource
     (init_job_resource_by_optimizer ex_ctx ex_limit ex_proposal ex_assign_update no_plan
        (job_calls ex_job_env ex_declared [InitJobResource ex_proposal]))) = 20"
proof -
  let ?self = "job_calls ex_job_env ex_declared [InitJobResource ex_proposal]"
  let ?plan = "ex_both (ex_group 16 2 16384)"
  have sp: "stage_plan ex_proposal ?self
      = (Inr (Some ?plan), ex_declared\<lparr>job_stage := PS_INITIAL\<rparr>) \<and> \<not> plan_empty ?plan"
    unfolding ex_job_calls
    by (simp add: stage_plan_def get_worker_resource_at_init_phase_def
        ex_proposal_def ex_optimizer_def ex_both_def plan_empty_def)
  have oom: "generate_oom_recovery_plan ex_proposal [name ex_node] PS_INITIAL = Some ?plan \<and>
     \<not> plan_empty ?plan \<and>
     map_of (node_group_resources ?plan) PS = Some (ex_group 16 2 16384) \<and>
     \<not> False \<and> 0 < count (ex_group 16 2 16384) \<and>
     memory (node_resource (ex_group 16 2 16384)) < MAX_MEMORY (env_limit ex_job_env)"
    by (simp add: ex_proposal_def ex_optimizer_def ex_both_def plan_empty_def ex_group_def
        ex_job_env_def ex_limit_def)
  have upd: "assigns_positive (env_update ex_job_env) \<and>
     0 < MIN_VALID_MEMORY (env_limit ex_job_env) \<and> 0 < MIN_VALID_CPU (env_limit ex_job_env)"
    by (simp add: ex_job_env_def ex_limit_def ex_assign_update_assigns_positive)
  have ini: "initial_plan ex_proposal (env_default_plan ex_job_env) ?self = ?plan"
    by (simp add: initial_plan_def ex_proposal_def ex_optimizer_def ex_both_def plan_empty_def)
  have groups: "map_of (node_group_resources ?plan) WORKER \<noteq> None"
    "map_of (node_group_resources ?plan) PS \<noteq> None"
    by (simp_all add: ex_both_def)
  have en: "easydl_worker_enabled (env_context ex_job_env)"
    "easydl_ps_enabled (env_context ex_job_env)"
    by (simp_all add: ex_job_env_def ex_ctx_def)
  have orig: "original_worker_resource ex_declared = ex_group 4 4 8192"
    "original_ps_resource ex_declared = ex_group 20 3 2048"
    by (simp_all add: ex_declared_def new_JobResourceOptimizer_def)
  have env: "env_limit ex_job_env = ex_limit" "env_adjust ex_job_env = (\<lambda>plan. plan)"
    "env_context ex_job_env = ex_ctx" "env_update ex_job_env = ex_assign_update"
    "env_default_plan ex_job_env = no_plan"
    by (simp_all add: ex_job_env_def)
  note t = user_override_in_every_call_sequence
    [where env = ex_job_env and ?self0.0 = ex_declared
       and calls = "[InitJobResource ex_proposal]" and opt = ex_proposal and plan = ?plan
       and ?self1.0 = "ex_declared\<lparr>job_stage := PS_INITIAL\<rparr>" and node = ex_node
       and oom_plan = ?plan and ps = "ex_group 16 2 16384" and training_started = False,
     OF refl]
  from t sp groups have b: "\<exists>p self'.
      get_job_resource_plan ex_limit ex_proposal (\<lambda>plan. plan) ?self = (Inr (Some p), self') \<and>
      user_override ex_limit (ex_group 4 4 8192) (worker_resource self') \<and>
      ps_override ex_limit (ex_group 20 3 2048) (ps_resource self')"
    unfolding env orig by blast
  from t oom have c: "\<exists>p self'.
      adjust_oom_ps_resource ex_limit ex_proposal (\<lambda>plan. plan) ?self ex_node False
        = Inr (p, self', ex_node) \<and>
      ps_override ex_limit (ex_group 20 3 2048) (ps_resource self')"
    unfolding env orig by blast
  from t upd en groups ini have d:
    "user_override ex_limit (ex_group 4 4 8192)
       (worker_resource
          (init_job_resource_by_optimizer ex_ctx ex_limit ex_proposal ex_assign_update no_plan
             ?self))"
    "user_override ex_limit (ex_group 20 3 2048)
       (ps_resource
          (init_job_resource_by_optimizer ex_ctx ex_limit ex_proposal ex_assign_update no_plan
             ?self))"
    unfolding env orig by simp_all
  from b c d show ?thesis
    by (auto simp: user_override_def ps_override_def ex_group_def ex_limit_def)
qed

text \<open>
  The claim as first stated asks that the live PS count equal the original PS count
  whenever that is positive. With 20 parameter servers declared and \<open>MAX_PS_NUM = 15\<close>
  the live count is 15.
\<close>

theorem verify_ps_count_counterexample:
  "\<not> isl (verify_optimized_group_resource ex_limit
            (new_JobResourceOptimizer (ex_group 4 4 8192) (ex_group 20 0 0))
            (ex_plan PS (ex_group 3 8 4096)) PS) \<and>
   count (ps_resource (fst (projr (verify_optimized_group_resource ex_limit
            (new_JobResourceOptimizer (ex_group 4 4 8192) (ex_group 20 0 0))
            (ex_plan PS (ex_group 3 8 4096)) PS)))) = 15 \<and>
   count (original_ps_resource (new_JobResourceOptimizer (ex_group 4 4 8192) (ex_group 20 0 0))) = 20"
  by (simp add: verify_optimized_group_resource_def ex_plan_def ex_group_def ex_limit_def
      new_JobResourceOptimizer_def check_ignore_original_ps_resource_def)

text \<open>
  \<open>optimize_worker_resource\<close>, which \<open>adjust_oom_worker_resource\<close> calls outside the stage
  \<open>WORKER_INITIAL\<close>, passes the worker group of the plan to \<open>update\<close> without the filter:
  with 4 workers of 4 cpu and 8192 of memory declared and a proposal of 8 workers of 2 cpu
  and 20000 of memory, the live worker resource becomes the proposal.
\<close>

lemma optimize_worker_resource_bypasses_filter:
  "optimize_worker_resource (ex_optimizer (Some (ex_plan WORKER (ex_group 8 2 20000))))
     ex_assign_update ex_declared
   = Inr (ex_declared\<lparr>worker_resource := ex_group 8 2 20000\<rparr>) \<and>
   adjust_oom_worker_resource ex_ctx ex_limit
     (ex_optimizer (Some (ex_plan WORKER (ex_group 8 2 20000)))) ex_assign_update ex_declared
     ex_node
   = Inr (ex_declared\<lparr>worker_resource := ex_group 8 2 20000\<rparr>,
          ex_node\<lparr>config_resource := \<lparr>cpu = 4, memory = 20000\<rparr>\<rparr>) \<and>
   original_worker_resource ex_declared = ex_group 4 4 8192 \<and>
   \<not> user_override ex_limit (ex_group 4 4 8192) (ex_group 8 2 20000)"
  by (simp add: optimize_worker_resource_def adjust_oom_worker_resource_def
      get_worker_resource_at_init_phase_def ex_optimizer_def ex_plan_def ex_group_def
      ex_assign_update_def ex_declared_def new_JobResourceOptimizer_def plan_empty_def
      user_override_def ex_limit_def ex_ctx_def ex_node_def py_int_def)

subsection \<open>Stages of \<open>get_job_resource_plan\<close>\<close>

lemma plan_empty_no_plan [simp]: "plan_empty no_plan"
  by (simp add: plan_empty_def no_plan_def)

text \<open>
  C2. In stage \<open>WORKER_INITIAL\<close>, when the optimizer answers the worker request with an
  empty plan, \<open>_get_worker_resource_at_init_phase\<close> returns \<open>None\<close>, the stage becomes
  \<open>PS_INITIAL\<close>, and \<open>plan.empty()\<close> on \<open>None\<close> raises \<open>AttributeError\<close>: the call does not
  return \<open>None\<close>.
\<close>

theorem get_job_resource_plan_worker_initial_empty_plan_raises:
  "get_job_resource_plan lmt
     \<lparr>generate_opt_plan = (\<lambda>stage config. Some no_plan), generate_oom_recovery_plan = oom\<rparr>
     adjust (self\<lparr>job_stage := WORKER_INITIAL\<rparr>)
   = (Inl AttributeError, self\<lparr>job_stage := PS_INITIAL\<rparr>)"
  by (simp add: get_job_resource_plan_def stage_plan_def get_worker_resource_at_init_phase_def)

text \<open>
  The other stages do as the claim says: an empty PS plan in \<open>PS_INITIAL\<close> gives \<open>None\<close> and
  stage \<open>RUNNING\<close>; in \<open>RUNNING\<close> an empty PS plan is followed by the worker request at phase
  \<open>SAMPLE\<close> the first time and \<open>STABLE\<close> afterwards; and a call that returns moves the
  stage as the cycle says.
\<close>

lemma get_job_resource_plan_ps_initial_empty:
  "job_stage self = PS_INITIAL \<Longrightarrow> generate_opt_plan opt PS_INITIAL None = Some plan \<Longrightarrow>
   plan_empty plan \<Longrightarrow>
   get_job_resource_plan lmt opt adjust self = (Inr None, self\<lparr>job_stage := RUNNING\<rparr>)"
  by (simp add: get_job_resource_plan_def stage_plan_def get_ps_resource_plan_def)

lemma get_job_resource_plan_running_empty:
  "job_stage self = RUNNING \<Longrightarrow> generate_opt_plan opt RUNNING None = Some plan \<Longrightarrow>
   plan_empty plan \<Longrightarrow>
   generate_opt_plan opt WORKER_INITIAL
     (Some (if optimize_worker_sampled self then STABLE else SAMPLE)) = Some wplan \<Longrightarrow>
   plan_empty wplan \<Longrightarrow>
   get_job_resource_plan lmt opt adjust self =
     (Inr None, self\<lparr>optimize_worker_sampled := True\<rparr>)"
  by (cases "optimize_worker_sampled self")
     (simp_all add: get_job_resource_plan_def stage_plan_def get_ps_resource_plan_def
        get_worker_resource_at_running_def get_worker_resource_at_sample_phase_def
        get_worker_resource_at_stable_phase_def)

lemma get_job_resource_plan_stage:
  "get_job_resource_plan lmt opt adjust self = (Inr r, self') \<Longrightarrow>
   job_stage self' =
     (case job_stage self of WORKER_INITIAL \<Rightarrow> PS_INITIAL | PS_INITIAL \<Rightarrow> RUNNING
      | RUNNING \<Rightarrow> RUNNING | CREATE \<Rightarrow> CREATE)"
  apply (cases "job_stage self")
  apply (auto simp: get_job_resource_plan_def stage_plan_def Let_def verify_optimized_group_resource_def get_worker_resource_at_running_def
     split: JobOptStage.splits sum.splits option.splits if_splits prod.splits NodeType.splits)
  done

subsection \<open>Memory of a worker after an out-of-memory failure\<close>

lemma py_int_ge:
  assumes "0 \<le> c" and "real_of_int c \<le> x"
  shows "c \<le> py_int x"
proof -
  from assms have "0 \<le> x" by linarith
  then have "py_int x = \<lfloor>x\<rfloor>" by (simp add: py_int_def)
  with assms(2) show ?thesis by (simp add: le_floor_iff)
qed

lemma set_memory_sel [simp]:
  "memory (node_resource (set_memory g m)) = m"
  by (simp add: set_memory_def)

lemma optimize_worker_resource_original:
  "optimize_worker_resource opt update self = Inr self' \<Longrightarrow>
   original_worker_resource self' = original_worker_resource self"
  by (auto simp: optimize_worker_resource_def split: sum.splits option.splits)

text \<open>
  C3. When \<open>adjust_oom_worker_resource\<close> returns, the node's memory is \<open>int\<close> of the
  greatest of the live worker memory, the node's old memory times
  \<open>INCREMENTAL_MEMORY_FACTOR\<close>, and the original worker memory; with a factor of at least 1
  and a node memory that is not negative, the node's memory has not decreased; and in stage
  \<open>WORKER_INITIAL\<close> with the easydl worker enabled, the live worker memory has been raised
  to the greater of its value and the worker memory of the recovery plan (and is unchanged
  when the optimizer gives no plan or an empty one).
\<close>

theorem adjust_oom_worker_resource_memory:
  assumes "adjust_oom_worker_resource ctx lmt opt update self node = Inr (self', node')"
  shows "original_worker_resource self' = original_worker_resource self \<and>
    memory (config_resource node') =
      py_int (max (real_of_int (memory (node_resource (worker_resource self'))))
               (max (real_of_int (memory (config_resource node)) * INCREMENTAL_MEMORY_FACTOR lmt)
                  (real_of_int (memory (node_resource (original_worker_resource self')))))) \<and>
    (1 \<le> INCREMENTAL_MEMORY_FACTOR lmt \<and> 0 \<le> memory (config_resource node) \<longrightarrow>
       memory (config_resource node) \<le> memory (config_resource node')) \<and>
    (easydl_worker_enabled ctx \<and> job_stage self = WORKER_INITIAL \<longrightarrow>
       (case generate_oom_recovery_plan opt [name node] CREATE of
          None \<Rightarrow> worker_resource self' = worker_resource self
        | Some plan \<Rightarrow>
            if plan_empty plan then worker_resource self' = worker_resource self
            else (\<exists>new_resource. map_of (node_group_resources plan) WORKER = Some new_resource \<and>
                   memory (node_resource (worker_resource self')) =
                     max (memory (node_resource (worker_resource self)))
                         (memory (node_resource new_resource)))))"
proof -
  let ?r = "if easydl_worker_enabled ctx \<and> job_stage self = WORKER_INITIAL
             then
               (case generate_oom_recovery_plan opt [name node] CREATE of
                  None \<Rightarrow> Inr self
                | Some plan \<Rightarrow>
                    if plan_empty plan then Inr self
                    else
                      (case map_of (node_group_resources plan) WORKER of
                         None \<Rightarrow> Inl KeyError
                       | Some new_resource \<Rightarrow>
                           Inr (self\<lparr>worker_resource :=
                                  set_memory (worker_resource self)
                                    (max (memory (node_resource (worker_resource self)))
                                         (memory (node_resource new_resource)))\<rparr>)))
             else optimize_worker_resource opt update self"
  let ?m = "py_int (max (real_of_int (memory (node_resource (worker_resource self'))))
               (max (real_of_int (memory (config_resource node)) * INCREMENTAL_MEMORY_FACTOR lmt)
                  (real_of_int (memory (node_resource (original_worker_resource self'))))))"
  from assms have r: "?r = Inr self'"
    and n: "node' = node\<lparr>config_resource := (config_resource node)\<lparr>memory := ?m\<rparr>\<rparr>"
    by (auto simp: adjust_oom_worker_resource_def Let_def split: sum.splits)
  have orig: "original_worker_resource self' = original_worker_resource self"
    using r by (auto split: if_splits option.splits dest: optimize_worker_resource_original)
  have mem: "memory (config_resource node') = ?m"
    by (subst n) simp
  have mono: "memory (config_resource node) \<le> memory (config_resource node')"
    if f: "1 \<le> INCREMENTAL_MEMORY_FACTOR lmt" and c: "0 \<le> memory (config_resource node)"
  proof -
    have "real_of_int (memory (config_resource node)) * 1
            \<le> real_of_int (memory (config_resource node)) * INCREMENTAL_MEMORY_FACTOR lmt"
      using f c by (intro mult_left_mono) simp_all
    then have "real_of_int (memory (config_resource node))
       \<le> max (real_of_int (memory (node_resource (worker_resource self'))))
               (max (real_of_int (memory (config_resource node)) * INCREMENTAL_MEMORY_FACTOR lmt)
                  (real_of_int (memory (node_resource (original_worker_resource self')))))"
      by simp
    from py_int_ge [OF c this] mem show ?thesis by simp
  qed
  have init: "(case generate_oom_recovery_plan opt [name node] CREATE of
          None \<Rightarrow> worker_resource self' = worker_resource self
        | Some plan \<Rightarrow>
            if plan_empty plan then worker_resource self' = worker_resource self
            else (\<exists>new_resource. map_of (node_group_resources plan) WORKER = Some new_resource \<and>
                   memory (node_resource (worker_resource self')) =
                     max (memory (node_resource (worker_resource self)))
                         (memory (node_resource new_resource))))"
    if "easydl_worker_enabled ctx \<and> job_stage self = WORKER_INITIAL"
    using r that by (auto split: option.splits if_splits)
  from orig mem mono init show ?thesis by blast
qed

theorem adjust_oom_worker_resource_memory_witness:
  "adjust_oom_worker_resource ex_ctx ex_limit
     (ex_optimizer (Some (ex_plan WORKER (ex_group 0 0 10000)))) ex_update ex_self ex_node
   = Inr (ex_self\<lparr>worker_resource := ex_group 4 4 10000\<rparr>,
          ex_node\<lparr>config_resource := \<lparr>cpu = 4, memory = 12288\<rparr>\<rparr>) \<and>
   memory (config_resource ex_node) = 8192 \<and>
   memory (config_resource (ex_node\<lparr>config_resource := \<lparr>cpu = 4, memory = 12288\<rparr>\<rparr>)) =
     py_int (max 10000 (max (8192 * (3 / 2)) 8192))"
proof -
  have run: "adjust_oom_worker_resource ex_ctx ex_limit
     (ex_optimizer (Some (ex_plan WORKER (ex_group 0 0 10000)))) ex_update ex_self ex_node
   = Inr (ex_self\<lparr>worker_resource := ex_group 4 4 10000\<rparr>,
          ex_node\<lparr>config_resource := \<lparr>cpu = 4, memory = 12288\<rparr>\<rparr>)"
    by (simp add: adjust_oom_worker_resource_def ex_ctx_def ex_limit_def ex_optimizer_def
        ex_plan_def ex_group_def ex_self_def ex_node_def new_JobResourceOptimizer_def
        plan_empty_def set_memory_def py_int_def)
  from adjust_oom_worker_resource_memory [OF run] run show ?thesis
    by (simp add: ex_limit_def ex_node_def ex_self_def ex_group_def new_JobResourceOptimizer_def)
qed

section \<open>Properties of the task manager\<close>

subsection \<open>\<open>new_dataset\<close>\<close>

text \<open>
  C4. A call of \<open>new_dataset\<close> with \<open>dataset_size = 0\<close> and a name that is not yet known
  creates the dataset: the test is \<open>dataset_size < 0\<close>, while the message logged by that
  branch says \<open><= 0\<close>.
\<close>

theorem new_dataset_size_zero_creates:
  "new_dataset ops (self\<lparr>datasets := []\<rparr>) batch_size 0 dataset_name dataset_splitter ttype
   = self\<lparr>datasets :=
       [(dataset_name, new_BatchDatasetManager ops ttype batch_size dataset_splitter)]\<rparr>"
  by (simp add: new_dataset_def)

text \<open>
  A negative size creates nothing, and a positive size with a fresh name creates the
  dataset, as the claim says.
\<close>

lemma new_dataset_negative_size:
  "dataset_size < 0 \<Longrightarrow>
   new_dataset ops self batch_size dataset_size dataset_name dataset_splitter ttype = self"
  by (simp add: new_dataset_def)

lemma new_dataset_fresh_positive:
  "0 < dataset_size \<Longrightarrow> map_of (datasets self) dataset_name = None \<Longrightarrow>
   get_dataset (new_dataset ops self batch_size dataset_size dataset_name dataset_splitter ttype)
     dataset_name = Some (new_BatchDatasetManager ops ttype batch_size dataset_splitter)"
  by (simp add: new_dataset_def get_dataset_def update_conv')

subsection \<open>\<open>task_hanged\<close>\<close>

text \<open>
  C8 (as amended). \<open>task_hanged()\<close> is true if and only if there is at least one dataset
  and every dataset has a latest task end time greater than zero that lies more than
  \<open>task_process_timeout\<close> before now.
\<close>

theorem task_hanged_iff:
  "task_hanged ops self now \<longleftrightarrow>
     datasets self \<noteq> [] \<and>
     (\<forall>(dataset_name, ds) \<in> set (datasets self).
        ds_get_latest_task_end_time ops ds > 0 \<and>
        now - ds_get_latest_task_end_time ops ds > real_of_int (task_process_timeout self))"
  by (auto simp: task_hanged_def Let_def list_all_iff)

theorem task_hanged_iff_witness:
  "task_hanged ex_ops (ex_task_manager [(''train'', ex_dataset [] [] 10)]) 100 \<and>
   \<not> task_hanged ex_ops (ex_task_manager [(''train'', ex_dataset [] [] 10),
                                           (''eval'', ex_dataset [] [] 0)]) 100"
  using task_hanged_iff [of ex_ops "ex_task_manager [(''train'', ex_dataset [] [] 10)]" 100]
    task_hanged_iff [of ex_ops "ex_task_manager [(''train'', ex_dataset [] [] 10),
                                           (''eval'', ex_dataset [] [] 0)]" 100]
  by (simp add: ex_ops_def ex_task_manager_def ex_dataset_def new_TaskManager_def)

text \<open>
  The claim as first stated takes the value without datasets from the quantifier over
  every dataset, which is true of no dataset; the code returns \<open>False\<close> there.
\<close>

theorem task_hanged_no_dataset_counterexample:
  "datasets (ex_task_manager []) = [] \<and> \<not> task_hanged ex_ops (ex_task_manager []) 100"
  by (simp add: task_hanged_def ex_task_manager_def)

subsection \<open>\<open>restore_dataset_from_checkpoint\<close>\<close>

text \<open>
  C9. \<open>restore_dataset_from_checkpoint\<close> always returns a truth value, and it returns
  \<open>True\<close> exactly when the checkpoint parses, a dataset has the checkpoint's name, and the
  restoration of that dataset does not raise; in every other case it returns \<open>False\<close>.
\<close>

theorem restore_dataset_from_checkpoint_result:
  "fst (restore_dataset_from_checkpoint ops self checkpoint) \<longleftrightarrow>
     (\<exists>dataset_checkpoint dataset dataset'.
        ckpt_from_json ops checkpoint = Inr dataset_checkpoint \<and>
        map_of (datasets self) (ckpt_dataset_name ops dataset_checkpoint) = Some dataset \<and>
        ds_restore_checkpoint ops dataset dataset_checkpoint = (None, dataset'))"
  by (auto simp: restore_dataset_from_checkpoint_def split: sum.splits option.splits prod.splits)

subsection \<open>The time-out sweeper\<close>

lemma reassign_timeout_task_cases:
  "reassign_timeout_task ops self cur n dataset doing_tasks = (dataset', evs) \<Longrightarrow>
     (evs = [] \<and> dataset' = dataset \<and>
        (\<forall>(tid, dt) \<in> set doing_tasks. \<not> task_timed_out self cur dt)) \<or>
     (\<exists>pre tid dt post.
        doing_tasks = pre @ (tid, dt) # post \<and>
        (\<forall>(i, d) \<in> set pre. \<not> task_timed_out self cur d) \<and>
        task_timed_out self cur dt \<and>
        dataset' = snd (ds_report_task_status ops dataset tid False) \<and>
        evs = TaskReportedFailed n tid # invoke_task_timeout_callback self (node_id dt))"
proof (induction doing_tasks)
  case Nil
  then show ?case by simp
next
  case (Cons a rest)
  obtain tid dt where a: "a = (tid, dt)" by (cases a)
  show ?case
  proof (cases "task_timed_out self cur dt")
    case True
    with Cons.prems a have
      "dataset' = snd (ds_report_task_status ops dataset tid False)"
      "evs = TaskReportedFailed n tid # invoke_task_timeout_callback self (node_id dt)"
      by auto
    with True a have "\<exists>pre tid' dt' post.
        a # rest = pre @ (tid', dt') # post \<and>
        (\<forall>(i, d) \<in> set pre. \<not> task_timed_out self cur d) \<and>
        task_timed_out self cur dt' \<and>
        dataset' = snd (ds_report_task_status ops dataset tid' False) \<and>
        evs = TaskReportedFailed n tid' # invoke_task_timeout_callback self (node_id dt')"
      by (intro exI [of _ "[]"] exI [of _ tid] exI [of _ dt] exI [of _ rest]) simp
    then show ?thesis by blast
  next
    case False
    with Cons.prems a have
      "reassign_timeout_task ops self cur n dataset rest = (dataset', evs)" by simp
    from Cons.IH [OF this] show ?thesis
    proof
      assume "evs = [] \<and> dataset' = dataset \<and>
        (\<forall>(tid, dt) \<in> set rest. \<not> task_timed_out self cur dt)"
      with False a show ?thesis by auto
    next
      assume "\<exists>pre tid dt post.
        rest = pre @ (tid, dt) # post \<and>
        (\<forall>(i, d) \<in> set pre. \<not> task_timed_out self cur d) \<and>
        task_timed_out self cur dt \<and>
        dataset' = snd (ds_report_task_status ops dataset tid False) \<and>
        evs = TaskReportedFailed n tid # invoke_task_timeout_callback self (node_id dt)"
      then obtain pre tid' dt' post where h:
        "rest = pre @ (tid', dt') # post"
        "\<forall>(i, d) \<in> set pre. \<not> task_timed_out self cur d"
        "task_timed_out self cur dt'"
        "dataset' = snd (ds_report_task_status ops dataset tid' False)"
        "evs = TaskReportedFailed n tid' # invoke_task_timeout_callback self (node_id dt')"
        by blast
      with False a have "a # rest = (a # pre) @ (tid', dt') # post \<and>
        (\<forall>(i, d) \<in> set (a # pre). \<not> task_timed_out self cur d)" by simp
      with h show ?thesis by blast
    qed
  qed
qed

lemma reported_failed_map_callback:
  "reported_failed n (map (\<lambda>callback_fn. TimeoutCallback callback_fn w) cbs) = []"
  by (induction cbs) simp_all

lemma reported_failed_callbacks:
  "reported_failed n (invoke_task_timeout_callback self w) = []"
  by (simp add: invoke_task_timeout_callback_def reported_failed_map_callback)

lemma reported_failed_append:
  "reported_failed n (xs @ ys) = reported_failed n xs @ reported_failed n ys"
  by (induction n xs rule: reported_failed.induct) simp_all

lemma reported_failed_reassign:
  "reported_failed n (snd (reassign_timeout_task ops self cur m dataset doing_tasks)) =
     (if m = n
      then (case find (\<lambda>(tid, dt). task_timed_out self cur dt) doing_tasks of
              None \<Rightarrow> [] | Some (tid, dt) \<Rightarrow> [tid])
      else [])"
  by (induction doing_tasks) (auto simp: reported_failed_callbacks)

lemma pass_events:
  "check_and_reassign_timeout_tasks ops clock self = (self', evs) \<Longrightarrow>
   evs = concat (map (\<lambda>md. snd (reassign_timeout_task ops self (clock (fst md)) (fst md)
                                   (snd md) (ds_doing ops (snd md)))) (datasets self))"
  by (auto simp: check_and_reassign_timeout_tasks_def Let_def comp_def case_prod_unfold)

lemma reported_failed_pass_other:
  "n \<notin> fst ` set dss \<Longrightarrow>
   reported_failed n
     (concat (map (\<lambda>md. snd (reassign_timeout_task ops self (clock (fst md)) (fst md)
                               (snd md) (ds_doing ops (snd md)))) dss)) = []"
  by (induction dss) (auto simp: reported_failed_append reported_failed_reassign)

lemma reported_failed_pass_length:
  "distinct (map fst dss) \<Longrightarrow>
   length (reported_failed n
     (concat (map (\<lambda>md. snd (reassign_timeout_task ops self (clock (fst md)) (fst md)
                               (snd md) (ds_doing ops (snd md)))) dss))) \<le> 1"
proof (induction dss)
  case Nil
  then show ?case by simp
next
  case (Cons a dss)
  show ?case
  proof (cases "fst a = n")
    case True
    with Cons.prems have "n \<notin> fst ` set dss" by auto
    from reported_failed_pass_other [OF this, of ops self clock] True
    show ?thesis
      by (auto simp: reported_failed_append reported_failed_reassign split: option.splits)
  next
    case False
    with Cons show ?thesis
      by (simp add: reported_failed_append reported_failed_reassign)
  qed
qed

text \<open>
  C7. In one pass of the time-out sweeper, a task is reported as failed only if it is a
  doing-task of its dataset of type \<open>EVALUATION\<close> whose worker started more than
  \<open>task_process_timeout\<close> before the time read for that dataset (a worker without a
  recorded start counts as started at that time); a callback is called with a worker id
  only for such a task of that worker that the pass reports; and the pass reports at most
  one task of each dataset.
\<close>

theorem check_and_reassign_timeout_tasks_one_per_dataset:
  assumes "check_and_reassign_timeout_tasks ops clock self = (self', evs)"
  shows "(\<forall>n tid. TaskReportedFailed n tid \<in> set evs \<longrightarrow>
            (\<exists>ds dt. (n, ds) \<in> set (datasets self) \<and> (tid, dt) \<in> set (ds_doing ops ds) \<and>
               task_type (task dt) = EVALUATION \<and>
               clock n - (case map_of (worker_start_task_time self) (node_id dt) of
                            None \<Rightarrow> clock n | Some t \<Rightarrow> t)
                 > real_of_int (task_process_timeout self))) \<and>
         (\<forall>cb w. TimeoutCallback cb w \<in> set evs \<longrightarrow>
            (\<exists>n ds tid dt. (n, ds) \<in> set (datasets self) \<and> (tid, dt) \<in> set (ds_doing ops ds) \<and>
               node_id dt = w \<and> TaskReportedFailed n tid \<in> set evs \<and>
               task_type (task dt) = EVALUATION \<and>
               clock n - (case map_of (worker_start_task_time self) (node_id dt) of
                            None \<Rightarrow> clock n | Some t \<Rightarrow> t)
                 > real_of_int (task_process_timeout self))) \<and>
         (distinct (map fst (datasets self)) \<longrightarrow>
            (\<forall>n. length (reported_failed n evs) \<le> 1))"
proof -
  let ?g = "\<lambda>md. snd (reassign_timeout_task ops self (clock (fst md)) (fst md)
                       (snd md) (ds_doing ops (snd md)))"
  from pass_events [OF assms] have evs: "evs = concat (map ?g (datasets self))" .
  have hit: "\<exists>m d tid dt. (m, d) \<in> set (datasets self) \<and> (tid, dt) \<in> set (ds_doing ops d) \<and>
      task_timed_out self (clock m) dt \<and>
      snd (reassign_timeout_task ops self (clock m) m d (ds_doing ops d)) =
        TaskReportedFailed m tid # invoke_task_timeout_callback self (node_id dt) \<and>
      e \<in> set (TaskReportedFailed m tid # invoke_task_timeout_callback self (node_id dt))"
    if "e \<in> set evs" for e
  proof -
    from that evs obtain md where md: "md \<in> set (datasets self)" and e: "e \<in> set (?g md)"
      by auto
    obtain m d where mdeq: "md = (m, d)" by (cases md)
    obtain d' es where r:
      "reassign_timeout_task ops self (clock m) m d (ds_doing ops d) = (d', es)"
      by (cases "reassign_timeout_task ops self (clock m) m d (ds_doing ops d)")
    from e mdeq r have ees: "e \<in> set es" by simp
    from reassign_timeout_task_cases [OF r] ees
    obtain pre tid dt post where h:
      "ds_doing ops d = pre @ (tid, dt) # post" "task_timed_out self (clock m) dt"
      "es = TaskReportedFailed m tid # invoke_task_timeout_callback self (node_id dt)"
      by auto
    from h(1) have "(tid, dt) \<in> set (ds_doing ops d)" by simp
    with md mdeq h(2,3) r ees show ?thesis
      by (intro exI [of _ m] exI [of _ d] exI [of _ tid] exI [of _ dt]) simp
  qed
  have one: "\<exists>ds dt. (n, ds) \<in> set (datasets self) \<and> (tid, dt) \<in> set (ds_doing ops ds) \<and>
               task_type (task dt) = EVALUATION \<and>
               clock n - (case map_of (worker_start_task_time self) (node_id dt) of
                            None \<Rightarrow> clock n | Some t \<Rightarrow> t)
                 > real_of_int (task_process_timeout self)"
    if "TaskReportedFailed n tid \<in> set evs" for n tid
    using hit [OF that]
    by (auto simp: task_timed_out_def Let_def invoke_task_timeout_callback_def)
  have two: "\<exists>n ds tid dt. (n, ds) \<in> set (datasets self) \<and> (tid, dt) \<in> set (ds_doing ops ds) \<and>
               node_id dt = w \<and> TaskReportedFailed n tid \<in> set evs \<and>
               task_type (task dt) = EVALUATION \<and>
               clock n - (case map_of (worker_start_task_time self) (node_id dt) of
                            None \<Rightarrow> clock n | Some t \<Rightarrow> t)
                 > real_of_int (task_process_timeout self)"
    if cb: "TimeoutCallback cb w \<in> set evs" for cb w
  proof -
    from hit [OF cb] obtain m d tid dt where h:
      "(m, d) \<in> set (datasets self)" "(tid, dt) \<in> set (ds_doing ops d)"
      "task_timed_out self (clock m) dt"
      "snd (reassign_timeout_task ops self (clock m) m d (ds_doing ops d)) =
        TaskReportedFailed m tid # invoke_task_timeout_callback self (node_id dt)"
      "TimeoutCallback cb w \<in> set (invoke_task_timeout_callback self (node_id dt))"
      by auto
    from h(5) have w: "node_id dt = w" by (auto simp: invoke_task_timeout_callback_def)
    from h(1,4) have "TaskReportedFailed m tid \<in> set (concat (map ?g (datasets self)))"
      by force
    with evs have "TaskReportedFailed m tid \<in> set evs" by simp
    with h w show ?thesis by (auto simp: task_timed_out_def Let_def)
  qed
  have three: "length (reported_failed n evs) \<le> 1" if "distinct (map fst (datasets self))" for n
    using reported_failed_pass_length [OF that] evs by simp
  from one two three show ?thesis by blast
qed

theorem check_and_reassign_timeout_tasks_one_per_dataset_witness:
  "snd (check_and_reassign_timeout_tasks ex_ops (\<lambda>n. 100) ex_sweep_manager)
     = [TaskReportedFailed ''eval'' 3, TimeoutCallback 0 2] \<and>
   distinct (map fst (datasets ex_sweep_manager)) \<and>
   length (reported_failed ''eval''
     (snd (check_and_reassign_timeout_tasks ex_ops (\<lambda>n. 100) ex_sweep_manager))) \<le> 1"
proof -
  have run: "check_and_reassign_timeout_tasks ex_ops (\<lambda>n. 100) ex_sweep_manager
    = (fst (check_and_reassign_timeout_tasks ex_ops (\<lambda>n. 100) ex_sweep_manager),
       [TaskReportedFailed ''eval'' 3, TimeoutCallback 0 2])"
    by (simp add: check_and_reassign_timeout_tasks_def ex_sweep_manager_def ex_ops_def
        ex_dataset_def ex_doing_task_def ex_task_def new_TaskManager_def task_timed_out_def
        invoke_task_timeout_callback_def)
  have d: "distinct (map fst (datasets ex_sweep_manager))"
    by (simp add: ex_sweep_manager_def new_TaskManager_def)
  from check_and_reassign_timeout_tasks_one_per_dataset [OF run] d
  have "length (reported_failed ''eval'' [TaskReportedFailed ''eval'' 3, TimeoutCallback 0 2]) \<le> 1"
    by blast
  with run d show ?thesis by (metis snd_conv)
qed

section \<open>Properties of the master servicer\<close>

subsection \<open>\<open>get_task\<close>\<close>

lemma get_dataset_task_known:
  assumes "map_of (datasets tm) n = Some d0" and "ds_get_task ops d0 wt wi = (t, d1)"
  shows "\<exists>tm'. get_dataset_task ops tm wt wi n now = (Some t, tm') \<and>
           get_dataset tm' n = Some d1"
  using assms
  by (simp add: get_dataset_task_def get_dataset_def Let_def update_conv')

lemma reset_worker_start_task_time_lookup:
  "map_of (worker_start_task_time (reset_worker_start_task_time tm w now)) w = Some now"
  by (simp add: reset_worker_start_task_time_def update_conv')

text \<open>
  For a request on a known dataset the response always carries the id, the type and the
  shard of the object that the dataset manager returned, with the servicer's version as
  model version, and the start time of the calling worker is the time read by the reset:
  whether the dataset is completed, whether there is a rendezvous server and how many
  workers run makes no difference, and the branch that answers \<open>WAIT\<close> is not reached.
\<close>

lemma get_task_known_dataset:
  assumes known: "get_dataset (task_manager self) (req_dataset_name request) = Some d0"
    and pull: "ds_get_task ops d0 (worker_type request) (worker_id request) = (t, d1)"
  shows "\<exists>self'.
           get_task ops self request now_start now_pull now_reset =
             (Inr (new_TaskMessage\<lparr>model_version := version self, res_task_id := task_id t,
                     res_type := task_type t, res_shard := shard t\<rparr>), self') \<and>
           map_of (worker_start_task_time (task_manager self')) (worker_id request)
             = Some now_reset"
proof -
  from known have k: "map_of (datasets (task_manager self)) (req_dataset_name request) = Some d0"
    by (simp add: get_dataset_def)
  from get_dataset_task_known [OF k pull, of now_pull]
  obtain tm' where g:
    "get_dataset_task ops (task_manager self) (worker_type request) (worker_id request)
       (req_dataset_name request) now_pull = (Some t, tm')"
    by blast
  with known show ?thesis
    by (auto simp: get_task_def Let_def new_TaskMessage_def
        reset_worker_start_task_time_lookup)
qed

lemma get_task_example_hands_out:
  "\<exists>self'.
     get_task ex_ops (ex_servicer [(''train'', ex_dataset [ex_task 0 TRAINING] [] 0)])
       ex_request 100 101 102
     = (Inr \<lparr>res_task_id = 0, res_type = TRAINING, res_shard = shard (ex_task 0 TRAINING),
             model_version = 0\<rparr>, self') \<and>
     map_of (worker_start_task_time (task_manager self')) 7 = Some 102"
  using get_task_known_dataset
      [of "ex_servicer [(''train'', ex_dataset [ex_task 0 TRAINING] [] 0)]" ex_request
          "ex_dataset [ex_task 0 TRAINING] [] 0" ex_ops "ex_task 0 TRAINING"
          "ex_dataset [] [(0, \<lparr>task = ex_task 0 TRAINING, node_type = WORKER, node_id = 7,
                                start_time = 0\<rparr>)] 0" 100 101 102]
  by (auto simp: ex_servicer_def ex_request_def ex_dataset_def ex_ops_def ex_task_def
      ex_task_manager_def new_MasterServicer_def new_TaskManager_def get_dataset_def
      new_TaskMessage_def)

text \<open>
  C5. A worker asks for a task of the known dataset \<open>train\<close>, which is not completed (one
  task is still being done) and has nothing to hand out; there is no rendezvous server.
  The response is not of type \<open>WAIT\<close>: it carries the placeholder of the dataset manager,
  with the id \<open>-1\<close> and the type \<open>NONE\<close>.
\<close>

theorem get_task_nothing_to_hand_out_is_not_wait:
  "get_dataset (task_manager ex_waiting_servicer) (req_dataset_name ex_request)
     = Some (ex_dataset [] [(0, ex_doing_task 0 TRAINING 8)] 0) \<and>
   \<not> ds_completed ex_ops (ex_dataset [] [(0, ex_doing_task 0 TRAINING 8)] 0) \<and>
   \<not> rendezvous_server ex_waiting_servicer \<and>
   fst (get_task ex_ops ex_waiting_servicer ex_request 100 101 102)
     = Inr \<lparr>res_task_id = - 1, res_type = NONE,
            res_shard = \<lparr>shard_name = [], shard_start = - 1, shard_end = - 1,
                         record_indices = []\<rparr>,
            model_version = 0\<rparr>"
  by (simp add: ex_waiting_servicer_def ex_servicer_def ex_request_def ex_dataset_def ex_ops_def
      ex_task_manager_def new_MasterServicer_def new_TaskManager_def get_dataset_def
      ex_invalid_task_def ex_doing_task_def get_task_def get_dataset_task_def
      new_TaskMessage_def Let_def)

subsection \<open>Autoscaling starts at most once\<close>

lemma latch_refl: "autoscale_latch self self"
  by (simp add: autoscale_latch_def)

lemma latch_task_manager: "autoscale_latch self (self\<lparr>task_manager := tm\<rparr>)"
  by (simp add: autoscale_latch_def auto_scale_calls_def)

lemma latch_trans:
  "autoscale_latch a b \<Longrightarrow> autoscale_latch b c \<Longrightarrow> autoscale_latch a c"
  by (auto simp: autoscale_latch_def split: if_splits)

lemma latch_check:
  "autoscale_latch self (snd (check_start_auto_scale_worker ctx self sm))"
  by (auto simp: check_start_auto_scale_worker_def autoscale_latch_def auto_scale_calls_def
      start_auto_scale_def split: option.splits)

lemma latch_non_training:
  "non_training_autoscale ctx self now sm = Inr self' \<Longrightarrow> autoscale_latch self self'"
  by (auto simp: non_training_autoscale_def autoscale_latch_def auto_scale_calls_def
      start_auto_scale_def split: option.splits if_splits)

lemma latch_get_task:
  "autoscale_latch self (snd (get_task ops self request now_start now_pull now_reset))"
  by (auto simp: get_task_def Let_def autoscale_latch_def auto_scale_calls_def
      split: option.splits prod.splits sum.splits)

lemma latch_report_global_step: "autoscale_latch self (snd (report_global_step ctx self sm))"
  by (auto simp: report_global_step_def latch_check latch_refl split: option.splits)

lemma latch_report_task_result:
  "autoscale_latch self (snd (report_task_result ops ctx self request now sm))"
proof -
  obtain r tm where rd:
    "report_dataset_task ops (task_manager self) request (err_message request = []) now = (r, tm)"
    by (cases "report_dataset_task ops (task_manager self) request (err_message request = []) now")
  show ?thesis
  proof (cases r)
    case (Inl e)
    with rd show ?thesis by (simp add: report_task_result_def latch_task_manager)
  next
    case (Inr p)
    obtain t nid where p: "p = (t, nid)" by (cases p)
    show ?thesis
    proof (cases "non_training_autoscale ctx (self\<lparr>task_manager := tm\<rparr>) now sm")
      case (Inl e)
      with rd Inr p show ?thesis by (simp add: report_task_result_def latch_task_manager)
    next
      case nt: (Inr self1)
      have l1: "autoscale_latch self self1"
        using latch_trans [OF latch_task_manager latch_non_training [OF nt]] .
      have l2: "autoscale_latch self (snd (check_start_auto_scale_worker ctx self1 sm))"
        using latch_trans [OF l1 latch_check] .
      from rd Inr p nt l1 l2 show ?thesis
        by (auto simp: report_task_result_def split: option.splits)
    qed
  qed
qed

lemma latch_servicer_call: "autoscale_latch self (servicer_call ops ctx self c)"
  by (cases c) (simp_all add: latch_get_task latch_report_task_result latch_report_global_step)

lemma latch_servicer_calls: "autoscale_latch self (servicer_calls ops ctx self calls)"
  unfolding servicer_calls_def
proof (induction calls arbitrary: self)
  case Nil
  show ?case by (simp add: latch_refl)
next
  case (Cons c calls)
  from latch_trans [OF latch_servicer_call Cons.IH]
  show ?case by simp
qed

text \<open>
  C6. Over any sequence of calls of \<open>get_task\<close>, \<open>report_task_result\<close> and
  \<open>report_global_step\<close> on a servicer that has not started autoscaling,
  \<open>start_auto_scale()\<close> is called at most once; once the flag is set it stays set and no
  further call is made; and the trigger of \<open>report_task_result\<close> for jobs that do not train
  makes its call only when the flag is not set, the completed global step is zero and more
  than \<open>seconds_to_autoscale_worker\<close> have passed since the start of training.
\<close>

theorem start_auto_scale_at_most_once:
  "(\<not> start_autoscale self \<and> auto_scale_calls self = 0 \<longrightarrow>
      auto_scale_calls (servicer_calls ops ctx self calls) \<le> 1) \<and>
   (start_autoscale self \<longrightarrow>
      start_autoscale (servicer_calls ops ctx self calls) \<and>
      auto_scale_calls (servicer_calls ops ctx self calls) = auto_scale_calls self) \<and>
   (non_training_autoscale ctx self now sm = Inr self' \<and>
    auto_scale_calls self' \<noteq> auto_scale_calls self \<longrightarrow>
      \<not> start_autoscale self \<and> completed_global_step sm = 0 \<and>
      (\<exists>t. start_training_time self = Some t \<and>
            py_int now - t > seconds_to_autoscale_worker ctx) \<and>
      auto_scale_calls self' = auto_scale_calls self + 1 \<and> start_autoscale self')"
proof (intro conjI impI)
  assume "\<not> start_autoscale self \<and> auto_scale_calls self = 0"
  with latch_servicer_calls [of self ops ctx calls]
  show "auto_scale_calls (servicer_calls ops ctx self calls) \<le> 1"
    by (auto simp: autoscale_latch_def)
next
  assume "start_autoscale self"
  with latch_servicer_calls [of self ops ctx calls]
  show "start_autoscale (servicer_calls ops ctx self calls)"
    and "auto_scale_calls (servicer_calls ops ctx self calls) = auto_scale_calls self"
    by (auto simp: autoscale_latch_def)
next
  assume a: "non_training_autoscale ctx self now sm = Inr self' \<and>
    auto_scale_calls self' \<noteq> auto_scale_calls self"
  then show "\<not> start_autoscale self" "completed_global_step sm = 0"
    "\<exists>t. start_training_time self = Some t \<and> py_int now - t > seconds_to_autoscale_worker ctx"
    "auto_scale_calls self' = auto_scale_calls self + 1" "start_autoscale self'"
    by (auto simp: non_training_autoscale_def auto_scale_calls_def start_auto_scale_def
        split: if_splits option.splits)
qed

lemma ex_calls_fire_once:
  "auto_scale_calls (servicer_calls ex_ops ex_ctx ex_started_servicer ex_calls) = 1"
  by (simp add: servicer_calls_def ex_calls_def ex_started_servicer_def ex_servicer_def
      ex_request_def ex_ctx_def ex_ops_def ex_dataset_def ex_task_def ex_task_manager_def
      new_MasterServicer_def new_TaskManager_def get_task_def get_dataset_def
      get_dataset_task_def reset_worker_start_task_time_def
      report_task_result_def report_dataset_task_def non_training_autoscale_def
      collect_runtime_stats_def check_start_auto_scale_worker_def report_global_step_def
      start_auto_scale_def auto_scale_calls_def py_int_def new_TaskMessage_def Let_def)

theorem start_auto_scale_at_most_once_witness:
  "auto_scale_calls (servicer_calls ex_ops ex_ctx ex_started_servicer ex_calls) \<le> 1 \<and>
   auto_scale_calls (servicer_calls ex_ops ex_ctx ex_started_servicer ex_calls) = 1 \<and>
   non_training_autoscale ex_ctx ex_started_servicer 110
       \<lparr>completed_global_step = 0, sample_count = 10\<rparr>
     = Inr (ex_started_servicer
             \<lparr>node_manager := Some \<lparr>running_workers = [7], auto_scale_started = 1\<rparr>,
              start_autoscale := True\<rparr>) \<and>
   py_int 110 - 10 > seconds_to_autoscale_worker ex_ctx \<and>
   auto_scale_calls
     (servicer_calls ex_ops ex_ctx
        (ex_started_servicer
           \<lparr>node_manager := Some \<lparr>running_workers = [7], auto_scale_started = 1\<rparr>,
            start_autoscale := True\<rparr>) ex_calls) = 1"
proof -
  let ?fired = "ex_started_servicer
           \<lparr>node_manager := Some \<lparr>running_workers = [7], auto_scale_started = 1\<rparr>,
            start_autoscale := True\<rparr>"
  have init: "\<not> start_autoscale ex_started_servicer \<and> auto_scale_calls ex_started_servicer = 0"
    by (simp add: ex_started_servicer_def ex_servicer_def new_MasterServicer_def
        auto_scale_calls_def)
  have fire: "non_training_autoscale ex_ctx ex_started_servicer 110
       \<lparr>completed_global_step = 0, sample_count = 10\<rparr> = Inr ?fired"
    by (simp add: non_training_autoscale_def ex_started_servicer_def ex_servicer_def
        new_MasterServicer_def ex_ctx_def py_int_def start_auto_scale_def)
  have diff: "auto_scale_calls ?fired \<noteq> auto_scale_calls ex_started_servicer"
    using init by (simp add: auto_scale_calls_def)
  have set: "start_autoscale ?fired" by simp
  have one: "auto_scale_calls ?fired = 1" by (simp add: auto_scale_calls_def)
  from start_auto_scale_at_most_once
    [of ex_started_servicer ex_ops ex_ctx ex_calls 110
        "\<lparr>completed_global_step = 0, sample_count = 10\<rparr>" ?fired] init fire diff
  have a: "auto_scale_calls (servicer_calls ex_ops ex_ctx ex_started_servicer ex_calls) \<le> 1"
    and b: "\<exists>t. start_training_time ex_started_servicer = Some t \<and>
                py_int 110 - t > seconds_to_autoscale_worker ex_ctx"
    by blast+
  from b have b': "py_int 110 - 10 > seconds_to_autoscale_worker ex_ctx"
    by (simp add: ex_started_servicer_def)
  from start_auto_scale_at_most_once [of ?fired ex_ops ex_ctx ex_calls] set one
  have c: "auto_scale_calls (servicer_calls ex_ops ex_ctx ?fired ex_calls) = 1"
    by simp
  from a ex_calls_fire_once fire b' c show ?thesis by blast
qed

section \<open>Properties of the event collector\<close>

lemma monitor_files_stopped: "stop_collector self \<Longrightarrow> monitor_files env self steps = self"
  by (cases steps) auto

lemma monitor_event_stop [simp]:
  "stop_collector (monitor_event env self ev) = stop_collector self"
  by (simp add: monitor_event_def report_event_def Let_def)

lemma monitor_events_set:
  "first_step self = Some f \<Longrightarrow>
   foldl (monitor_event env) self evs =
     self\<lparr>client_reports := client_reports self @ filter (\<lambda>ev. event_step ev \<noteq> f) evs\<rparr>"
proof (induction evs arbitrary: self)
  case Nil
  then show ?case by simp
next
  case (Cons ev evs)
  have "first_step (monitor_event env self ev) = Some f"
    using Cons.prems by (simp add: monitor_event_def report_event_def)
  from Cons.IH [OF this] Cons.prems show ?case
    by (auto simp: monitor_event_def report_event_def)
qed

lemma after_step_begin_Cons:
  "after_step_begin env (ev # evs) =
     (if is_step_begin env ev then evs else after_step_begin env evs)"
  by (simp add: after_step_begin_def)

lemma monitor_events_unset:
  "first_step self = None \<Longrightarrow>
   foldl (monitor_event env) self evs =
     (case find (is_step_begin env) evs of
        None \<Rightarrow> self
      | Some b \<Rightarrow>
          self\<lparr>first_step := Some (event_step b),
               client_reports := client_reports self @
                 filter (\<lambda>ev. event_step ev \<noteq> event_step b) (after_step_begin env evs)\<rparr>)"
proof (induction evs arbitrary: self)
  case Nil
  then show ?case by simp
next
  case (Cons ev evs)
  show ?case
  proof (cases "is_step_begin env ev")
    case True
    with Cons.prems have m: "monitor_event env self ev = self\<lparr>first_step := Some (event_step ev)\<rparr>"
      by (simp add: monitor_event_def)
    have "first_step (self\<lparr>first_step := Some (event_step ev)\<rparr>) = Some (event_step ev)" by simp
    from monitor_events_set [OF this, of env evs] m True show ?thesis
      by (simp add: after_step_begin_Cons)
  next
    case False
    with Cons.prems have m: "monitor_event env self ev = self"
      by (simp add: monitor_event_def)
    with Cons.IH [OF Cons.prems] False show ?thesis
      by (simp add: after_step_begin_Cons split: option.splits)
  qed
qed

lemma ex_parse:
  "parse_line ex_env ''step begin 1'' = Inr (ex_event ''trainer'' ''#step'' ''BEGIN'' 1)"
  "parse_line ex_env ''step end 1'' = Inr (ex_event ''trainer'' ''#step'' ''END'' 1)"
  "parse_line ex_env ''ckpt begin 2'' = Inr (ex_event ''saver'' ''#ckpt'' ''BEGIN'' 2)"
  "parse_line ex_env ''noise'' = Inl AtorchNotFoundException"
  by (simp_all add: parse_line_def ex_env_def ex_prefix_def ex_event_def py_index_def)

lemma ex_is_step_begin:
  "is_step_begin ex_env (ex_event ''trainer'' ''#step'' ''BEGIN'' 1)"
  "\<not> is_step_begin ex_env (ex_event ''trainer'' ''#step'' ''END'' 1)"
  "\<not> is_step_begin ex_env (ex_event ''saver'' ''#ckpt'' ''BEGIN'' 2)"
  by (simp_all add: is_step_begin_def ex_env_def ex_event_def)

lemma ex_parsed_events:
  "parsed_events ex_env
     [''ckpt begin 2'', ''noise'', ''step begin 1'', ''step end 1'', ''ckpt begin 2'']
   = [ex_event ''saver'' ''#ckpt'' ''BEGIN'' 2, ex_event ''trainer'' ''#step'' ''BEGIN'' 1,
      ex_event ''trainer'' ''#step'' ''END'' 1, ex_event ''saver'' ''#ckpt'' ''BEGIN'' 2]"
  "parsed_events ex_env [''step begin 1'', ''ckpt begin 2'']
   = [ex_event ''trainer'' ''#step'' ''BEGIN'' 1, ex_event ''saver'' ''#ckpt'' ''BEGIN'' 2]"
  "parsed_events ex_env [''ckpt begin 2''] = [ex_event ''saver'' ''#ckpt'' ''BEGIN'' 2]"
  by (simp_all add: ex_parse)

lemma monitor_files_events:
  "\<not> stop_collector self \<Longrightarrow>
   monitor_files env self steps
     = foldl (monitor_event env) self (parsed_events env (map snd steps))"
  by (induction steps arbitrary: self) (auto split: sum.splits)

lemma ex_steps_lines:
  "map snd ex_steps
     = [''ckpt begin 2'', ''noise'', ''step begin 1'', ''step end 1'', ''ckpt begin 2'']"
  by (simp add: ex_steps_def)

text \<open>
  C10 (as amended). In a run of the file-monitor loops of a collector that is not stopped,
  with the iterations of the loops of all ranks in any order: while \<open>_first_step\<close> is unset
  nothing is reported; the first trainer step event of type begin that any of the loops
  parses sets \<open>_first_step\<close> to its step; and exactly the events parsed after it, by
  whichever loop, whose step differs from that step are reported, in order. When
  \<open>_first_step\<close> is already set at the start, exactly the parsed events whose step differs
  from it are reported. An event whose step is \<open>_first_step\<close> is never reported. The step
  begin need not be on the file of the event that is reported.
\<close>

theorem monitor_files_reports:
  assumes "\<not> stop_collector self"
  shows "(first_step self = None \<longrightarrow>
            (case find (is_step_begin env) (parsed_events env (map snd steps)) of
               None \<Rightarrow> monitor_files env self steps = self
             | Some b \<Rightarrow>
                 monitor_files env self steps =
                   self\<lparr>first_step := Some (event_step b),
                        client_reports := client_reports self @
                          filter (\<lambda>ev. event_step ev \<noteq> event_step b)
                            (after_step_begin env (parsed_events env (map snd steps)))\<rparr>)) \<and>
         (\<forall>f. first_step self = Some f \<longrightarrow>
            monitor_files env self steps =
              self\<lparr>client_reports := client_reports self @
                     filter (\<lambda>ev. event_step ev \<noteq> f) (parsed_events env (map snd steps))\<rparr>)"
  using assms
  by (auto simp: monitor_files_events monitor_events_unset monitor_events_set
      split: option.splits)

theorem monitor_files_reports_witness:
  "monitor_files ex_env new_AtorchEventCollector ex_steps
   = \<lparr>first_step = Some 1, stop_collector = False,
      client_reports = [ex_event ''saver'' ''#ckpt'' ''BEGIN'' 2]\<rparr> \<and>
   monitor_files ex_env (new_AtorchEventCollector\<lparr>first_step := Some 2\<rparr>)
     [(0, ''step begin 1''), (1, ''ckpt begin 2'')]
   = \<lparr>first_step = Some 2, stop_collector = False,
      client_reports = [ex_event ''trainer'' ''#step'' ''BEGIN'' 1]\<rparr>"
proof -
  have ns: "\<not> stop_collector new_AtorchEventCollector"
    "\<not> stop_collector (new_AtorchEventCollector\<lparr>first_step := Some 2\<rparr>)"
    by (simp_all add: new_AtorchEventCollector_def)
  have f: "find (is_step_begin ex_env) (parsed_events ex_env (map snd ex_steps))
     = Some (ex_event ''trainer'' ''#step'' ''BEGIN'' 1)"
    by (simp only: ex_steps_lines ex_parsed_events) (simp add: ex_is_step_begin)
  have g: "after_step_begin ex_env (parsed_events ex_env (map snd ex_steps))
     = [ex_event ''trainer'' ''#step'' ''END'' 1, ex_event ''saver'' ''#ckpt'' ''BEGIN'' 2]"
    by (simp only: ex_steps_lines ex_parsed_events)
       (simp add: after_step_begin_def ex_is_step_begin)
  from monitor_files_reports [OF ns(1), of ex_env ex_steps]
  have "monitor_files ex_env new_AtorchEventCollector ex_steps
   = new_AtorchEventCollector
       \<lparr>first_step := Some (event_step (ex_event ''trainer'' ''#step'' ''BEGIN'' 1)),
        client_reports := client_reports new_AtorchEventCollector @
          filter (\<lambda>ev. event_step ev \<noteq> event_step (ex_event ''trainer'' ''#step'' ''BEGIN'' 1))
            [ex_event ''trainer'' ''#step'' ''END'' 1, ex_event ''saver'' ''#ckpt'' ''BEGIN'' 2]\<rparr>"
    by (simp add: f g new_AtorchEventCollector_def)
  then have a: "monitor_files ex_env new_AtorchEventCollector ex_steps
   = \<lparr>first_step = Some 1, stop_collector = False,
      client_reports = [ex_event ''saver'' ''#ckpt'' ''BEGIN'' 2]\<rparr>"
    by (simp add: ex_event_def new_AtorchEventCollector_def)
  have l: "map snd [(0::nat, ''step begin 1''), (1, ''ckpt begin 2'')]
     = [''step begin 1'', ''ckpt begin 2'']"
    by simp
  from monitor_files_reports [OF ns(2), of ex_env "[(0, ''step begin 1''), (1, ''ckpt begin 2'')]"]
  have "monitor_files ex_env (new_AtorchEventCollector\<lparr>first_step := Some 2\<rparr>)
     [(0, ''step begin 1''), (1, ''ckpt begin 2'')]
   = new_AtorchEventCollector
       \<lparr>first_step := Some 2,
        client_reports := client_reports (new_AtorchEventCollector\<lparr>first_step := Some 2\<rparr>) @
          filter (\<lambda>ev. event_step ev \<noteq> 2)
            [ex_event ''trainer'' ''#step'' ''BEGIN'' 1, ex_event ''saver'' ''#ckpt'' ''BEGIN'' 2]\<rparr>"
    unfolding l
    by (simp add: ex_parsed_events new_AtorchEventCollector_def
        del: monitor_files.simps parsed_events.simps)
  then have b: "monitor_files ex_env (new_AtorchEventCollector\<lparr>first_step := Some 2\<rparr>)
     [(0, ''step begin 1''), (1, ''ckpt begin 2'')]
   = \<lparr>first_step = Some 2, stop_collector = False,
      client_reports = [ex_event ''trainer'' ''#step'' ''BEGIN'' 1]\<rparr>"
    by (simp add: ex_event_def new_AtorchEventCollector_def del: monitor_files.simps)
  from a b show ?thesis by blast
qed

text \<open>
  The claim as first stated asks for a step begin event on the file itself before anything
  of that file is reported. \<open>_first_step\<close> belongs to the collector, which runs one loop for
  each local rank. Here the loop of rank 1 starts with \<open>_first_step\<close> unset and reads a line
  that does not parse; the loop of rank 0 then reads a step begin; and the next event on
  the file of rank 1, on which no step begin has been seen, is reported.
\<close>

theorem monitor_files_shared_first_step_counterexample:
  "first_step new_AtorchEventCollector = None \<and>
   lines_of_rank 1 [(1, ''noise''), (0, ''step begin 1''), (1, ''ckpt begin 2'')]
     = [''noise'', ''ckpt begin 2''] \<and>
   find (is_step_begin ex_env) (parsed_events ex_env [''noise'', ''ckpt begin 2'']) = None \<and>
   client_reports
     (monitor_files ex_env new_AtorchEventCollector
        [(1, ''noise''), (0, ''step begin 1''), (1, ''ckpt begin 2'')])
   = [ex_event ''saver'' ''#ckpt'' ''BEGIN'' 2]"
  by (simp add: new_AtorchEventCollector_def lines_of_rank_def ex_parse ex_is_step_begin
      monitor_event_def)
     (simp add: ex_event_def report_event_def)

end
